theory Spec2Isabelle
  imports Main "HOL-Library.Word" "HOL-Library.Sublist"
begin

section \<open>Data model\<close>

text \<open>
  The repository holds two versions of the plugin: \<^verbatim>\<open>src/main.ts\<close> (no recording
  dialog, no error handling in the recorder wrapper) and \<^verbatim>\<open>src/unnamed/part_000\<close>
  (recording dialog, guarded wrapper). A definition without prefix embeds the function of
  \<^verbatim>\<open>part_000\<close>; the one with prefix \<open>main_\<close> embeds the function of the same name in
  \<^verbatim>\<open>main.ts\<close>. Where both files have the same text there is one definition.

  Strings are lists of code units below 256. A \<^verbatim>\<open>Blob\<close> is its bytes and its type tag.
\<close>

type_synonym byte = "8 word"

record blob =
  blob_bytes :: "byte list"
  blob_type :: string

definition new_Blob :: "blob list \<Rightarrow> string \<Rightarrow> blob" where
  \<comment> \<open>\<^verbatim>\<open>new Blob(parts, { type })\<close>: the parts' bytes in order; \<^verbatim>\<open>new Blob([])\<close> has type \<^verbatim>\<open>""\<close>.\<close>
  "new_Blob parts ty = \<lparr>blob_bytes = concat (map blob_bytes parts), blob_type = ty\<rparr>"

definition blob_size :: "blob \<Rightarrow> nat" where
  "blob_size b = length (blob_bytes b)"

subsection \<open>Host objects\<close>

text \<open>
  The browser and the note-taking application are not part of the repository. Their
  objects are kept in an explicit store, since the wrapper holds references to them and the
  host keeps them alive after the wrapper has dropped the reference:
  \<^item> a device stream is the list of its tracks, \<open>True\<close> for a live track; its identity is its
    index in \<open>streams\<close>;
  \<^item> a \<^verbatim>\<open>MediaRecorder\<close> has its stream, its encoding type, its \<^verbatim>\<open>state\<close>, whether its
    final \<^verbatim>\<open>stop\<close> event is still queued, and the two handlers the wrapper installs; the
    \<^verbatim>\<open>onstop\<close> handler is identified by the promise whose \<^verbatim>\<open>resolve\<close> it closes over;
  \<^item> a promise returned by \<^verbatim>\<open>stopRecording\<close> is pending, resolved with a blob or rejected;
  \<^item> the vault is its folders, its files (path and content, in listing order) and the
    \<^verbatim>\<open>TFile\<close> objects it keeps for them;
  \<^item> \<open>notices\<close> are the \<^verbatim>\<open>new Notice(...)\<close> texts in order, \<open>console\<close> the \<^verbatim>\<open>console.error\<close>
    lines, \<open>playback_view\<close> the entries last rendered by the playback dialog.

  The record \<open>host\<close> holds what differs between hosts: which encoding types are supported,
  and whether \<^verbatim>\<open>MediaRecorder.stop()\<close> on an inactive recorder throws or does nothing. The
  answer to a device-access request is a new stream of some number of live tracks, or a
  rejection with its message.
\<close>

datatype recording_state = Inactive | Recording

record media_recorder =
  mr_stream :: nat
  mr_mimeType :: string
  mr_state :: recording_state
  mr_stop_queued :: bool
  mr_ondataavailable :: bool
  mr_onstop :: "nat option"

datatype 'a promise = Pending | Resolved 'a | Rejected string

record TFile =
  path :: string
  name :: string

record world =
  streams :: "bool list list"
  recorders :: "media_recorder list"
  promises :: "blob promise list"
  notices :: "string list"
  console :: "string list"
  folders :: "string list"
  files :: "(string \<times> byte list) list"
  tfiles :: "TFile list"
  playback_view :: "TFile list"

record host =
  isTypeSupported :: "string \<Rightarrow> bool"
  stop_inactive_throws :: bool

datatype media_answer = Granted nat | Denied string

definition Notice :: "string \<Rightarrow> world \<Rightarrow> world" where
  "Notice msg w = w\<lparr>notices := notices w @ [msg]\<rparr>"

definition console_error :: "string \<Rightarrow> world \<Rightarrow> world" where
  "console_error msg w = w\<lparr>console := console w @ [msg]\<rparr>"

definition getUserMedia_granted :: "nat \<Rightarrow> world \<Rightarrow> nat \<times> world" where
  \<comment> \<open>the host hands out a new stream of \<open>n\<close> live tracks\<close>
  "getUserMedia_granted n w = (length (streams w), w\<lparr>streams := streams w @ [replicate n True]\<rparr>)"

definition new_MediaRecorder :: "host \<Rightarrow> nat \<Rightarrow> string \<Rightarrow> world \<Rightarrow> string + nat \<times> world" where
  \<comment> \<open>the constructor throws for a type that is neither empty nor supported\<close>
  "new_MediaRecorder h s mimeType w =
     (if mimeType \<noteq> [] \<and> \<not> isTypeSupported h mimeType then Inl ''NotSupportedError''
      else Inr (length (recorders w),
                w\<lparr>recorders := recorders w @
                    [\<lparr>mr_stream = s, mr_mimeType = mimeType, mr_state = Inactive,
                      mr_stop_queued = False, mr_ondataavailable = False, mr_onstop = None\<rparr>]\<rparr>))"

definition upd_recorder :: "nat \<Rightarrow> (media_recorder \<Rightarrow> media_recorder) \<Rightarrow> world \<Rightarrow> world" where
  "upd_recorder r f w = w\<lparr>recorders := (recorders w)[r := f (recorders w ! r)]\<rparr>"

definition mr_start :: "nat \<Rightarrow> world \<Rightarrow> string + world" where
  \<comment> \<open>\<^verbatim>\<open>MediaRecorder.start()\<close> throws unless the recorder is inactive\<close>
  "mr_start r w =
     (case mr_state (recorders w ! r) of
        Recording \<Rightarrow> Inl ''InvalidStateError''
      | Inactive \<Rightarrow> Inr (upd_recorder r (\<lambda>m. m\<lparr>mr_state := Recording\<rparr>) w))"

definition mr_stop :: "host \<Rightarrow> nat \<Rightarrow> world \<Rightarrow> string + world" where
  \<comment> \<open>\<^verbatim>\<open>MediaRecorder.stop()\<close>: a recording recorder becomes inactive and its last
      \<^verbatim>\<open>dataavailable\<close> and its \<^verbatim>\<open>stop\<close> event are queued; on an inactive recorder the call
      throws or does nothing, depending on the host\<close>
  "mr_stop h r w =
     (case mr_state (recorders w ! r) of
        Inactive \<Rightarrow> (if stop_inactive_throws h then Inl ''InvalidStateError'' else Inr w)
      | Recording \<Rightarrow> Inr (upd_recorder r (\<lambda>m. m\<lparr>mr_state := Inactive, mr_stop_queued := True\<rparr>) w))"

definition stop_tracks :: "nat \<Rightarrow> world \<Rightarrow> world" where
  \<comment> \<open>\<^verbatim>\<open>stream.getTracks().forEach(track => track.stop())\<close>\<close>
  "stop_tracks s w = w\<lparr>streams := (streams w)[s := map (\<lambda>_. False) (streams w ! s)]\<rparr>"

definition resolve :: "nat \<Rightarrow> blob \<Rightarrow> world \<Rightarrow> world" where
  \<comment> \<open>settling a promise that is already settled does nothing\<close>
  "resolve p b w =
     (if promises w ! p = Pending then w\<lparr>promises := (promises w)[p := Resolved b]\<rparr> else w)"

definition reject :: "nat \<Rightarrow> string \<Rightarrow> world \<Rightarrow> world" where
  "reject p err w =
     (if promises w ! p = Pending then w\<lparr>promises := (promises w)[p := Rejected err]\<rparr> else w)"

section \<open>Recorder wrapper\<close>

record AudioRecorder =
  mediaRecorder :: "nat option"
  audioChunks :: "blob list"
  stream :: "nat option"

definition new_AudioRecorder :: AudioRecorder where
  "new_AudioRecorder = \<lparr>mediaRecorder = None, audioChunks = [], stream = None\<rparr>"

definition mimeTypes :: "string list" where
  "mimeTypes = [''audio/mp3'', ''audio/mpeg'', ''audio/webm;codecs=opus'', ''audio/webm'']"

fun select_type :: "(string \<Rightarrow> bool) \<Rightarrow> string list \<Rightarrow> string" where
  \<comment> \<open>\<^verbatim>\<open>let selectedType = ''; for (const type of mimeTypes) if (supported(type)) { selectedType = type; break; }\<close>\<close>
  "select_type supported [] = ''''"
| "select_type supported (t # ts) = (if supported t then t else select_type supported ts)"

definition start_session :: "host \<Rightarrow> nat \<Rightarrow> AudioRecorder \<times> world \<Rightarrow> (string + nat) \<times> AudioRecorder \<times> world" where
  \<comment> \<open>the statements of \<^verbatim>\<open>startRecording\<close> after the stream has arrived, the same in both
      files; \<open>Inl\<close> is an exception thrown on the way\<close>
  "start_session h n aw =
     (let (a, w) = aw;
          (s, w1) = getUserMedia_granted n w;
          a1 = a\<lparr>stream := Some s\<rparr>;
          selectedType = select_type (isTypeSupported h) mimeTypes
      in case new_MediaRecorder h s selectedType w1 of
           Inl err \<Rightarrow> (Inl err, a1, w1)
         | Inr (r, w2) \<Rightarrow>
             (let a2 = a1\<lparr>mediaRecorder := Some r, audioChunks := []\<rparr>;
                  w3 = upd_recorder r (\<lambda>m. m\<lparr>mr_ondataavailable := True\<rparr>) w2
              in case mr_start r w3 of
                   Inl err \<Rightarrow> (Inl err, a2, w3)
                 | Inr w4 \<Rightarrow> (Inr s, a2, Notice ''Recording started...'' w4)))"

definition startRecording :: "host \<Rightarrow> media_answer \<Rightarrow> AudioRecorder \<times> world \<Rightarrow> nat option \<times> AudioRecorder \<times> world" where
  \<comment> \<open>part_000: the whole body is inside \<^verbatim>\<open>try\<close>; the result is the stream or \<^verbatim>\<open>null\<close>\<close>
  "startRecording h answer aw =
     (let caught = (\<lambda>err (a, w).
            (None, a, Notice (''Failed to start recording: '' @ err)
                        (console_error (''Error starting recording: '' @ err) w)))
      in case answer of
           Denied err \<Rightarrow> caught err aw
         | Granted n \<Rightarrow>
             (case start_session h n aw of
                (Inl err, a, w) \<Rightarrow> caught err (a, w)
              | (Inr s, a, w) \<Rightarrow> (Some s, a, w)))"

definition main_startRecording :: "host \<Rightarrow> media_answer \<Rightarrow> AudioRecorder \<times> world \<Rightarrow> (string + unit) \<times> AudioRecorder \<times> world" where
  \<comment> \<open>main.ts: no \<^verbatim>\<open>try\<close>; \<open>Inl\<close> is the rejection of the promise the function returns\<close>
  "main_startRecording h answer aw =
     (case answer of
        Denied err \<Rightarrow> (Inl err, aw)
      | Granted n \<Rightarrow>
          (case start_session h n aw of
             (Inl err, a, w) \<Rightarrow> (Inl err, a, w)
           | (Inr s, a, w) \<Rightarrow> (Inr (), a, w)))"

definition stopRecording :: "host \<Rightarrow> AudioRecorder \<times> world \<Rightarrow> nat \<times> AudioRecorder \<times> world" where
  \<comment> \<open>part_000. The result is the promise; the executor runs at once, and an exception
      thrown inside it rejects the promise\<close>
  "stopRecording h aw =
     (let (a, w) = aw;
          p = length (promises w);
          w0 = w\<lparr>promises := promises w @ [Pending]\<rparr>
      in case mediaRecorder a of
           None \<Rightarrow> (p, a, resolve p (new_Blob [] '''') w0)
         | Some r \<Rightarrow>
             (let w1 = upd_recorder r (\<lambda>m. m\<lparr>mr_onstop := Some p\<rparr>) w0
              in case mr_stop h r w1 of
                   Inl err \<Rightarrow> (p, a, reject p err w1)
                 | Inr w2 \<Rightarrow> (p, a, Notice ''Recording stopped!'' w2)))"

definition main_stopRecording :: "host \<Rightarrow> AudioRecorder \<times> world \<Rightarrow> nat \<times> AudioRecorder \<times> world" where
  \<comment> \<open>main.ts: \<^verbatim>\<open>if (!this.mediaRecorder) return;\<close> leaves the executor without resolving\<close>
  "main_stopRecording h aw =
     (let (a, w) = aw;
          p = length (promises w);
          w0 = w\<lparr>promises := promises w @ [Pending]\<rparr>
      in case mediaRecorder a of
           None \<Rightarrow> (p, a, w0)
         | Some r \<Rightarrow>
             (let w1 = upd_recorder r (\<lambda>m. m\<lparr>mr_onstop := Some p\<rparr>) w0
              in case mr_stop h r w1 of
                   Inl err \<Rightarrow> (p, a, reject p err w1)
                 | Inr w2 \<Rightarrow> (p, a, Notice ''Recording stopped!'' w2)))"

definition ondataavailable :: "blob \<Rightarrow> AudioRecorder \<Rightarrow> AudioRecorder" where
  \<comment> \<open>\<^verbatim>\<open>this.audioChunks.push(event.data)\<close>\<close>
  "ondataavailable data a = a\<lparr>audioChunks := audioChunks a @ [data]\<rparr>"

definition onstop :: "nat \<Rightarrow> AudioRecorder \<times> world \<Rightarrow> AudioRecorder \<times> world" where
  \<comment> \<open>part_000: the handler installed by \<^verbatim>\<open>stopRecording\<close>, closing over \<^verbatim>\<open>resolve\<close> of promise \<open>p\<close>\<close>
  "onstop p aw =
     (let (a, w) = aw;
          audioBlob = new_Blob (audioChunks a) ''audio/mp3'';
          a1 = a\<lparr>audioChunks := []\<rparr>;
          (a2, w2) = (case stream a1 of
                        None \<Rightarrow> (a1, w)
                      | Some s \<Rightarrow> (a1\<lparr>stream := None\<rparr>, stop_tracks s w))
      in (a2, resolve p audioBlob w2))"

definition main_onstop :: "nat \<Rightarrow> AudioRecorder \<times> world \<Rightarrow> AudioRecorder \<times> world" where
  \<comment> \<open>main.ts: \<^verbatim>\<open>this.stream?.getTracks().forEach(track => track.stop())\<close>, the reference stays\<close>
  "main_onstop p aw =
     (let (a, w) = aw;
          audioBlob = new_Blob (audioChunks a) ''audio/mp3'';
          a1 = a\<lparr>audioChunks := []\<rparr>;
          w2 = (case stream a1 of None \<Rightarrow> w | Some s \<Rightarrow> stop_tracks s w)
      in (a1, resolve p audioBlob w2))"

subsection \<open>Events of the host on a recorder\<close>

datatype version = Part_000 | Main_ts

definition fire_dataavailable :: "nat \<Rightarrow> blob \<Rightarrow> AudioRecorder \<times> world \<Rightarrow> AudioRecorder \<times> world" where
  \<comment> \<open>the host delivers a chunk while the recorder records or its stop is still queued\<close>
  "fire_dataavailable r data aw =
     (let (a, w) = aw
      in if r < length (recorders w) \<and> mr_ondataavailable (recorders w ! r) \<and>
            (mr_state (recorders w ! r) = Recording \<or> mr_stop_queued (recorders w ! r))
         then (ondataavailable data a, w) else aw)"

definition fire_stop :: "version \<Rightarrow> nat \<Rightarrow> AudioRecorder \<times> world \<Rightarrow> AudioRecorder \<times> world" where
  \<comment> \<open>the host delivers the queued \<^verbatim>\<open>stop\<close> event and runs the installed handler\<close>
  "fire_stop v r aw =
     (let (a, w) = aw
      in if r < length (recorders w) \<and> mr_stop_queued (recorders w ! r)
         then (let w1 = upd_recorder r (\<lambda>m. m\<lparr>mr_stop_queued := False\<rparr>) w
               in case mr_onstop (recorders w ! r) of
                    None \<Rightarrow> (a, w1)
                  | Some p \<Rightarrow> (case v of Part_000 \<Rightarrow> onstop p (a, w1)
                                        | Main_ts \<Rightarrow> main_onstop p (a, w1)))
         else aw)"

datatype event = Start media_answer | Stop | Data nat blob | Stopped nat

fun step :: "version \<Rightarrow> host \<Rightarrow> event \<Rightarrow> AudioRecorder \<times> world \<Rightarrow> AudioRecorder \<times> world" where
  "step Part_000 h (Start answer) aw = snd (startRecording h answer aw)"
| "step Main_ts h (Start answer) aw = snd (main_startRecording h answer aw)"
| "step Part_000 h Stop aw = snd (stopRecording h aw)"
| "step Main_ts h Stop aw = snd (main_stopRecording h aw)"
| "step v h (Data r data) aw = fire_dataavailable r data aw"
| "step v h (Stopped r) aw = fire_stop v r aw"

definition run :: "version \<Rightarrow> host \<Rightarrow> event list \<Rightarrow> AudioRecorder \<times> world \<Rightarrow> AudioRecorder \<times> world" where
  "run v h es aw = fold (step v h) es aw"

definition live_streams :: "world \<Rightarrow> nat list" where
  \<comment> \<open>the device streams that still have a live track\<close>
  "live_streams w = filter (\<lambda>s. True \<in> set (streams w ! s)) [0 ..< length (streams w)]"

definition orphaned :: "nat \<Rightarrow> AudioRecorder \<times> world \<Rightarrow> bool" where
  \<comment> \<open>a pending promise that the \<^verbatim>\<open>onstop\<close> handler of no recorder refers to\<close>
  "orphaned p aw =
     (p < length (promises (snd aw)) \<and> promises (snd aw) ! p = Pending \<and>
      Some p \<notin> set (map mr_onstop (recorders (snd aw))))"

definition unreferenced :: "nat \<Rightarrow> bool list \<Rightarrow> AudioRecorder \<times> world \<Rightarrow> bool" where
  \<comment> \<open>the stream \<open>s\<close>, with tracks \<open>ts\<close>, is in the store and the wrapper does not refer to it\<close>
  "unreferenced s ts aw =
     (s < length (streams (snd aw)) \<and> streams (snd aw) ! s = ts \<and> stream (fst aw) \<noteq> Some s)"

fun valid_refs :: "AudioRecorder \<times> world \<Rightarrow> bool" where
  \<comment> \<open>every reference held by the wrapper or by an \<^verbatim>\<open>onstop\<close> handler points into the store\<close>
  "valid_refs (a, w) =
     ((case mediaRecorder a of None \<Rightarrow> True | Some r \<Rightarrow> r < length (recorders w)) \<and>
      (case stream a of None \<Rightarrow> True | Some s \<Rightarrow> s < length (streams w)) \<and>
      list_all (\<lambda>q. case q of None \<Rightarrow> True | Some p \<Rightarrow> p < length (promises w))
        (map mr_onstop (recorders w)))"

definition empty_world :: world where
  "empty_world = \<lparr>streams = [], recorders = [], promises = [], notices = [], console = [],
                   folders = [], files = [], tfiles = [], playback_view = []\<rparr>"

section \<open>Vault\<close>

text \<open>
  The vault is the host's. \<open>files\<close> is what is stored (path and content), \<open>tfiles\<close> are the
  \<^verbatim>\<open>TFile\<close> objects the vault keeps for its files, one for each; \<^verbatim>\<open>getFiles\<close> hands out these
  very objects, so that an assignment to a field of one of them is seen by every later
  listing. The operations follow the host's interface: \<^verbatim>\<open>createFolder\<close> and
  \<^verbatim>\<open>createBinary\<close> throw when something is already at the path, a file can only be created
  or moved into a folder that exists and under a name that is not empty, \<^verbatim>\<open>rename\<close> throws
  when the destination is taken and otherwise sets path and name of the file's object.
  Paths are compared as they are written. A new \<^verbatim>\<open>TFile\<close> has the last segment of its path
  as its name.
\<close>

definition adapter_exists :: "world \<Rightarrow> string \<Rightarrow> bool" where
  "adapter_exists w p = (p \<in> set (folders w) \<or> p \<in> set (map fst (files w)))"

definition parent_of :: "string \<Rightarrow> string" where
  \<comment> \<open>the path up to its last \<^verbatim>\<open>/\<close>; the root is the empty path\<close>
  "parent_of p = rev (drop 1 (dropWhile (\<lambda>c. c \<noteq> CHR ''/'') (rev p)))"

definition basename :: "string \<Rightarrow> string" where
  "basename p = rev (takeWhile (\<lambda>c. c \<noteq> CHR ''/'') (rev p))"

definition new_TFile :: "string \<Rightarrow> TFile" where
  "new_TFile p = \<lparr>path = p, name = basename p\<rparr>"

definition folder_exists :: "world \<Rightarrow> string \<Rightarrow> bool" where
  "folder_exists w p = (p = [] \<or> p \<in> set (folders w))"

definition createFolder :: "string \<Rightarrow> world \<Rightarrow> string + world" where
  "createFolder p w =
     (if adapter_exists w p then Inl ''Folder already exists.''
      else if \<not> folder_exists w (parent_of p) \<or> basename p = []
        then Inl ''ENOENT: no such file or directory''
      else Inr (w\<lparr>folders := folders w @ [p]\<rparr>))"

definition createBinary :: "string \<Rightarrow> byte list \<Rightarrow> world \<Rightarrow> string + world" where
  "createBinary p data w =
     (if adapter_exists w p then Inl ''File already exists.''
      else if \<not> folder_exists w (parent_of p) \<or> basename p = []
        then Inl ''ENOENT: no such file or directory''
      else Inr (w\<lparr>files := files w @ [(p, data)], tfiles := tfiles w @ [new_TFile p]\<rparr>))"

definition vault_rename :: "TFile \<Rightarrow> string \<Rightarrow> world \<Rightarrow> string + world" where
  "vault_rename f newPath w =
     (if adapter_exists w newPath then Inl ''Destination file already exists!''
      else if path f \<notin> set (map fst (files w)) \<or> \<not> folder_exists w (parent_of newPath) \<or>
              basename newPath = []
        then Inl ''ENOENT: no such file or directory''
      else Inr (w\<lparr>files := map (\<lambda>(p, d). if p = path f then (newPath, d) else (p, d)) (files w),
                  tfiles := map (\<lambda>t. if path t = path f then new_TFile newPath else t) (tfiles w)\<rparr>))"

definition getFiles :: "world \<Rightarrow> TFile list" where
  "getFiles w = tfiles w"

definition file_name_assign :: "TFile \<Rightarrow> string \<Rightarrow> world \<Rightarrow> world" where
  \<comment> \<open>\<^verbatim>\<open>file.name = newName\<close>, where \<open>f\<close> is one of the vault's objects, found by its path\<close>
  "file_name_assign f newName w =
     w\<lparr>tfiles := map (\<lambda>t. if path t = path f then t\<lparr>name := newName\<rparr> else t) (tfiles w)\<rparr>"

section \<open>Save routine\<close>

definition saveAudio :: "blob \<Rightarrow> string \<Rightarrow> world \<Rightarrow> (string + unit) \<times> world" where
  \<comment> \<open>part_000; \<open>Inl\<close> is the rejection of the promise the function returns\<close>
  "saveAudio blob filename w =
     (let audioDir = ''Audio''
      in case (if \<not> adapter_exists w audioDir then createFolder audioDir w else Inr w) of
           Inl err \<Rightarrow> (Inl err, w)
         | Inr w1 \<Rightarrow>
             (let arrayBuffer = blob_bytes blob
              in case createBinary (audioDir @ ''/'' @ filename) arrayBuffer w1 of
                   Inl err \<Rightarrow> (Inl err, w1)
                 | Inr w2 \<Rightarrow> (Inr (), Notice (''Saved: '' @ filename) w2)))"

fun digits :: "nat \<Rightarrow> string" where
  \<comment> \<open>the decimal text of a non-negative integer, as a template literal prints it\<close>
  "digits n = (if n < 10 then [''0123456789'' ! n]
               else digits (n div 10) @ [''0123456789'' ! (n mod 10)])"

declare digits.simps [simp del]

definition main_saveAudio :: "nat \<Rightarrow> blob \<Rightarrow> world \<Rightarrow> (string + unit) \<times> world" where
  \<comment> \<open>main.ts: the name comes from the clock, \<open>now\<close> is what \<^verbatim>\<open>Date.now()\<close> returns\<close>
  "main_saveAudio now blob w =
     (let audioDir = ''Audio''
      in case (if \<not> adapter_exists w audioDir then createFolder audioDir w else Inr w) of
           Inl err \<Rightarrow> (Inl err, w)
         | Inr w1 \<Rightarrow>
             (let filename = ''Recording-'' @ digits now @ ''.mp3'';
                  arrayBuffer = blob_bytes blob
              in case createBinary (audioDir @ ''/'' @ filename) arrayBuffer w1 of
                   Inl err \<Rightarrow> (Inl err, w1)
                 | Inr w2 \<Rightarrow> (Inr (), Notice (''Saved: '' @ filename) w2)))"

section \<open>Rename dialog and playback dialog\<close>

definition is_whitespace :: "char \<Rightarrow> bool" where
  \<comment> \<open>what \<^verbatim>\<open>String.prototype.trim\<close> strips, among the code units below 256\<close>
  "is_whitespace c = (c \<in> set [CHR 0x09, CHR 0x0A, CHR 0x0B, CHR 0x0C, CHR 0x0D, CHR 0x20, CHR 0xA0])"

definition trim :: "string \<Rightarrow> string" where
  "trim s = rev (dropWhile is_whitespace (rev (dropWhile is_whitespace s)))"

record RenameModal =
  modal_file :: TFile
  inputEl_value :: string
  rename_open :: bool

definition RenameModal_onOpen :: "RenameModal \<Rightarrow> RenameModal" where
  \<comment> \<open>the input field is pre-filled with \<^verbatim>\<open>this.file.name + ".mp3"\<close>\<close>
  "RenameModal_onOpen m = m\<lparr>inputEl_value := name (modal_file m) @ ''.mp3'', rename_open := True\<rparr>"

definition renameBtn_onclick :: "(string \<Rightarrow> 'w \<Rightarrow> 'w) \<Rightarrow> RenameModal \<times> 'w \<Rightarrow> RenameModal \<times> 'w" where
  \<comment> \<open>\<open>onRename\<close> is the callback given to the constructor, acting on the rest of the state\<close>
  "renameBtn_onclick onRename mw =
     (let (m, w) = mw;
          newName = trim (inputEl_value m)
      in if newName \<noteq> []
         then (m\<lparr>modal_file := (modal_file m)\<lparr>name := newName\<rparr>, rename_open := False\<rparr>,
               onRename (newName @ ''.mp3'') w)
         else (m, w))"

definition playback_onOpen :: "world \<Rightarrow> world" where
  \<comment> \<open>\<^verbatim>\<open>AudioPlaybackModal.onOpen\<close>: the entries rendered are the files under \<^verbatim>\<open>Audio/\<close>\<close>
  "playback_onOpen w = w\<lparr>playback_view := filter (\<lambda>f. prefix ''Audio/'' (path f)) (getFiles w)\<rparr>"

definition rename_callback_starts :: "TFile \<Rightarrow> string \<Rightarrow> bool" where
  \<comment> \<open>the test at the head of the callback, made with the entry's name as it is at the call\<close>
  "rename_callback_starts f newName = (newName \<noteq> [] \<and> newName \<noteq> name f)"

definition rename_callback_resumed :: "TFile \<Rightarrow> string \<Rightarrow> world \<Rightarrow> world" where
  \<comment> \<open>the callback from \<^verbatim>\<open>await this.app.vault.adapter.exists(newPath)\<close> on\<close>
  "rename_callback_resumed f newName w =
     (let newPath = ''Audio/'' @ newName
      in if adapter_exists w newPath
         then Notice (''Error: A file named '' @ [CHR 0x22] @ newName @ [CHR 0x22] @ '' already exists'') w
         else (case vault_rename f newPath w of
                 Inr w1 \<Rightarrow> playback_onOpen (Notice (''Renamed to: '' @ newName) w1)
               | Inl err \<Rightarrow> Notice (''Error renaming file: '' @ err) w))"

definition rename_callback :: "TFile \<Rightarrow> string \<Rightarrow> world \<Rightarrow> world" where
  \<comment> \<open>the callback the playback dialog gives to the rename dialog, for the entry \<open>f\<close>, run
      without anything happening in between\<close>
  "rename_callback f newName w =
     (if rename_callback_starts f newName then rename_callback_resumed f newName w else w)"

definition rename_submit :: "TFile \<Rightarrow> string \<Rightarrow> world \<Rightarrow> world" where
  \<comment> \<open>The rename dialog, opened by the playback dialog for its entry \<open>f\<close>, has \<open>v\<close> in its input
      field and its rename button is clicked. The handler calls the callback, which runs up
      to its \<^verbatim>\<open>await\<close>; then the handler assigns \<^verbatim>\<open>this.file.name\<close>, on the vault's own object,
      and closes the dialog; then the callback goes on.\<close>
  "rename_submit f v w =
     (let m = \<lparr>modal_file = f, inputEl_value = v, rename_open = True\<rparr>;
          (m1, started) = renameBtn_onclick
             (\<lambda>newName started. if rename_callback_starts f newName then Some newName else started)
             (m, None);
          w1 = (if rename_open m1 then w else file_name_assign f (name (modal_file m1)) w)
      in case started of
           None \<Rightarrow> w1
         | Some newName \<Rightarrow> rename_callback_resumed f newName w1)"

section \<open>Plugin shell (part_000)\<close>

text \<open>
  The handlers of the plugin are asynchronous functions. A handler runs until it suspends:
  at the device-access request inside \<^verbatim>\<open>startRecording\<close>, or at the promise of
  \<^verbatim>\<open>stopRecording\<close> while that is pending. \<open>media_pending\<close> counts the handlers suspended
  at a device-access request, \<open>awaiting\<close> lists those suspended at a promise, with what
  they do when it resolves. The calls into the vault made by \<^verbatim>\<open>saveAudio\<close> are taken to
  complete before the next event. The waveform display is not modelled. The fields
  \<^verbatim>\<open>recorder\<close>, \<^verbatim>\<open>recordingModal\<close> and \<^verbatim>\<open>playbackModal\<close> are set in \<^verbatim>\<open>onload\<close> and never
  again, so the handlers' tests for them always succeed; the stop callback of the recording
  dialog is set before the dialog is first opened.
\<close>

datatype waiter = Ribbon_stop | Modal_stop string

record plugin =
  recorder :: AudioRecorder
  isRecording :: bool
  recordingModal_open :: bool
  playbackModal_open :: bool
  media_pending :: nat
  awaiting :: "(nat \<times> waiter) list"
  env :: world

definition onload :: "world \<Rightarrow> plugin" where
  "onload w = \<lparr>recorder = new_AudioRecorder, isRecording = False, recordingModal_open = False,
               playbackModal_open = False, media_pending = 0, awaiting = [], env = w\<rparr>"

definition ribbon_started :: "nat option \<Rightarrow> plugin \<Rightarrow> plugin" where
  \<comment> \<open>the ribbon handler after \<^verbatim>\<open>await this.recorder.startRecording()\<close>: the stop callback is
      set and the recording dialog opened, whether or not a stream came back\<close>
  "ribbon_started res pl = pl\<lparr>recordingModal_open := True\<rparr>"

definition ribbon_stopped :: "nat \<Rightarrow> blob option \<Rightarrow> plugin \<Rightarrow> plugin" where
  \<comment> \<open>the ribbon handler after \<^verbatim>\<open>await this.recorder.stopRecording()\<close>; \<^verbatim>\<open>if (audioBlob)\<close> tests
      for an object, \<open>None\<close> is \<^verbatim>\<open>undefined\<close>\<close>
  "ribbon_stopped now audioBlob pl =
     (case audioBlob of
        None \<Rightarrow> pl
      | Some b \<Rightarrow>
          (let defaultName = ''Recording-'' @ digits now @ ''.mp3''
           in case saveAudio b defaultName (env pl) of
                (Inl err, w) \<Rightarrow> pl\<lparr>env := w\<rparr>
              | (Inr u, w) \<Rightarrow> pl\<lparr>env := playback_onOpen w, recordingModal_open := False,
                                  playbackModal_open := True\<rparr>))"

definition modal_stopped :: "string \<Rightarrow> blob option \<Rightarrow> plugin \<Rightarrow> plugin" where
  \<comment> \<open>the stop callback of the recording dialog after \<^verbatim>\<open>await this.recorder?.stopRecording()\<close>\<close>
  "modal_stopped filename audioBlob pl =
     (case audioBlob of
        None \<Rightarrow> pl
      | Some b \<Rightarrow>
          (case saveAudio b filename (env pl) of
             (Inl err, w) \<Rightarrow> pl\<lparr>env := w\<rparr>
           | (Inr u, w) \<Rightarrow> pl\<lparr>env := playback_onOpen w, isRecording := False,
                               recordingModal_open := False, playbackModal_open := True\<rparr>))"

definition resume :: "waiter \<Rightarrow> nat \<Rightarrow> blob option \<Rightarrow> plugin \<Rightarrow> plugin" where
  "resume k now audioBlob pl =
     (case k of Ribbon_stop \<Rightarrow> ribbon_stopped now audioBlob pl
              | Modal_stop filename \<Rightarrow> modal_stopped filename audioBlob pl)"

definition await_stop :: "waiter \<Rightarrow> nat \<Rightarrow> nat \<times> AudioRecorder \<times> world \<Rightarrow> plugin \<Rightarrow> plugin" where
  \<comment> \<open>\<^verbatim>\<open>await\<close> on the promise \<open>stopRecording\<close> has just returned\<close>
  "await_stop k now res pl =
     (let (p, a, w) = res;
          pl1 = pl\<lparr>recorder := a, env := w\<rparr>
      in case promises w ! p of
           Resolved b \<Rightarrow> resume k now (Some b) pl1
         | Pending \<Rightarrow> pl1\<lparr>awaiting := awaiting pl1 @ [(p, k)]\<rparr>
         | Rejected err \<Rightarrow> pl1)"

fun wake :: "nat \<Rightarrow> (nat \<times> waiter) list \<Rightarrow> plugin \<Rightarrow> plugin" where
  \<comment> \<open>the suspended handlers whose promise has been settled go on, the others keep waiting\<close>
  "wake now [] pl = pl"
| "wake now ((p, k) # ks) pl =
     (case promises (env pl) ! p of
        Pending \<Rightarrow> wake now ks (pl\<lparr>awaiting := awaiting pl @ [(p, k)]\<rparr>)
      | Resolved b \<Rightarrow> wake now ks (resume k now (Some b) pl)
      | Rejected err \<Rightarrow> wake now ks pl)"

datatype plugin_event =
    RibbonClick nat
  | MediaAnswer media_answer
  | StopAndSave string
  | HostData nat blob
  | HostStop nat nat

fun plugin_step :: "host \<Rightarrow> plugin_event \<Rightarrow> plugin \<Rightarrow> plugin" where
  "plugin_step h (RibbonClick now) pl =
     (let pl1 = pl\<lparr>isRecording := \<not> isRecording pl\<rparr>
      in if isRecording pl1 then pl1\<lparr>media_pending := Suc (media_pending pl1)\<rparr>
         else await_stop Ribbon_stop now (stopRecording h (recorder pl1, env pl1)) pl1)"
| "plugin_step h (MediaAnswer answer) pl =
     (if media_pending pl = 0 then pl
      else (let (res, a, w) = startRecording h answer (recorder pl, env pl)
            in ribbon_started res
                 (pl\<lparr>media_pending := media_pending pl - 1, recorder := a, env := w\<rparr>)))"
| "plugin_step h (StopAndSave v) pl =
     (if \<not> recordingModal_open pl then pl
      else (let filename = trim v
            in if filename \<noteq> []
               then await_stop (Modal_stop (filename @ ''.mp3'')) 0
                      (stopRecording h (recorder pl, env pl)) pl
               else pl))"
| "plugin_step h (HostData r data) pl =
     (let (a, w) = fire_dataavailable r data (recorder pl, env pl)
      in pl\<lparr>recorder := a, env := w\<rparr>)"
| "plugin_step h (HostStop r now) pl =
     (let (a, w) = fire_stop Part_000 r (recorder pl, env pl)
      in wake now (awaiting pl) (pl\<lparr>recorder := a, env := w, awaiting := []\<rparr>))"

definition plugin_run :: "host \<Rightarrow> plugin_event list \<Rightarrow> plugin \<Rightarrow> plugin" where
  "plugin_run h es pl = fold (plugin_step h) es pl"

section \<open>Properties of the encoding-type selection\<close>

lemma select_type_mimeTypes:
  "select_type supported mimeTypes =
     (if supported ''audio/mp3'' then ''audio/mp3''
      else if supported ''audio/mpeg'' then ''audio/mpeg''
      else if supported ''audio/webm;codecs=opus'' then ''audio/webm;codecs=opus''
      else if supported ''audio/webm'' then ''audio/webm''
      else '''')"
  by (simp add: mimeTypes_def)

lemma select_type_accepted:
  "select_type supported ts = [] \<or> supported (select_type supported ts)"
  by (induction ts) auto

section \<open>Properties of the wrapper's start\<close>

lemma start_session_eq:
  "start_session h n (a, w) =
     (Inr (length (streams w)),
      a\<lparr>stream := Some (length (streams w)), mediaRecorder := Some (length (recorders w)),
        audioChunks := []\<rparr>,
      w\<lparr>streams := streams w @ [replicate n True],
        recorders := recorders w @
          [\<lparr>mr_stream = length (streams w),
            mr_mimeType = select_type (isTypeSupported h) mimeTypes,
            mr_state = Recording, mr_stop_queued = False, mr_ondataavailable = True,
            mr_onstop = None\<rparr>],
        notices := notices w @ [''Recording started...'']\<rparr>)"
proof -
  have ok: "\<not> (select_type (isTypeSupported h) mimeTypes \<noteq> [] \<and>
               \<not> isTypeSupported h (select_type (isTypeSupported h) mimeTypes))"
    using select_type_accepted [of "isTypeSupported h" mimeTypes] by blast
  show ?thesis
    unfolding start_session_def getUserMedia_granted_def new_MediaRecorder_def
    using ok by (simp add: mr_start_def upd_recorder_def Notice_def Let_def)
qed

lemma startRecording_granted:
  "startRecording h (Granted n) (a, w) =
     (Some (length (streams w)), snd (start_session h n (a, w)))"
  by (simp add: startRecording_def start_session_eq)

lemma main_startRecording_granted:
  "main_startRecording h (Granted n) (a, w) = (Inr (), snd (start_session h n (a, w)))"
  by (simp add: main_startRecording_def start_session_eq)

lemma startRecording_denied:
  "startRecording h (Denied err) (a, w) =
     (None, a, w\<lparr>console := console w @ [''Error starting recording: '' @ err],
                 notices := notices w @ [''Failed to start recording: '' @ err]\<rparr>)"
  by (simp add: startRecording_def Notice_def console_error_def)

text \<open>
  C2. Whatever the host supports, the type chosen by \<^verbatim>\<open>startRecording\<close> is the first
  supported one in the order \<^verbatim>\<open>audio/mp3\<close>, \<^verbatim>\<open>audio/mpeg\<close>, \<^verbatim>\<open>audio/webm;codecs=opus\<close>,
  \<^verbatim>\<open>audio/webm\<close>, and the empty string when none is supported. With the stream granted the
  call does not throw in either file: it returns the stream (part_000) or resolves (main.ts),
  and the recorder it has constructed carries exactly the chosen type, the empty one included.
\<close>

theorem startRecording_selects_first_supported:
  "select_type (isTypeSupported h) mimeTypes =
     (if isTypeSupported h ''audio/mp3'' then ''audio/mp3''
      else if isTypeSupported h ''audio/mpeg'' then ''audio/mpeg''
      else if isTypeSupported h ''audio/webm;codecs=opus'' then ''audio/webm;codecs=opus''
      else if isTypeSupported h ''audio/webm'' then ''audio/webm''
      else '''') \<and>
   fst (startRecording h (Granted n) (a, w)) = Some (length (streams w)) \<and>
   fst (main_startRecording h (Granted n) (a, w)) = Inr () \<and>
   mr_mimeType (last (recorders (snd (snd (startRecording h (Granted n) (a, w)))))) =
     select_type (isTypeSupported h) mimeTypes \<and>
   mr_mimeType (last (recorders (snd (snd (main_startRecording h (Granted n) (a, w)))))) =
     select_type (isTypeSupported h) mimeTypes"
  by (simp add: select_type_mimeTypes startRecording_granted main_startRecording_granted
        start_session_eq)

text \<open>
  C5. In main.ts \<^verbatim>\<open>startRecording\<close> has no \<^verbatim>\<open>try\<close>: when the device-access request is
  rejected, the rejection leaves the function as it came and nothing is reported; wrapper
  and host are as before. (In part_000 the rejection is caught, logged and reported, and
  \<^verbatim>\<open>null\<close> is returned: \<open>startRecording_denied\<close>.)
\<close>

theorem main_startRecording_denied_propagates:
  "main_startRecording h (Denied err) (a, w) = (Inl err, a, w) \<and>
   notices (snd (snd (main_startRecording h (Denied err) (a, w)))) = notices w"
  by (simp add: main_startRecording_def)

section \<open>Properties of the wrapper's stop\<close>

lemma run_Cons: "run v h (e # es) aw = run v h es (step v h e aw)"
  by (simp add: run_def)

lemma run_Nil: "run v h [] aw = aw"
  by (simp add: run_def)

lemma run_append: "run v h (es @ fs) aw = run v h fs (run v h es aw)"
  by (simp add: run_def)

lemma data_while_stopping:
  "r < length (recorders w) \<Longrightarrow> mr_ondataavailable (recorders w ! r) \<Longrightarrow>
   mr_state (recorders w ! r) = Recording \<or> mr_stop_queued (recorders w ! r) \<Longrightarrow>
   run v h (map (Data r) ds) (a, w) = (a\<lparr>audioChunks := audioChunks a @ ds\<rparr>, w)"
proof (induction ds arbitrary: a)
  case Nil
  then show ?case by (simp add: run_Nil)
next
  case (Cons d ds)
  have "step v h (Data r d) (a, w) = (a\<lparr>audioChunks := audioChunks a @ [d]\<rparr>, w)"
    using Cons.prems by (simp add: fire_dataavailable_def ondataavailable_def)
  then show ?case
    using Cons.IH [OF Cons.prems, of "a\<lparr>audioChunks := audioChunks a @ [d]\<rparr>"]
    by (simp add: run_Cons)
qed

lemma stopRecording_active:
  assumes "mediaRecorder a = Some r" "mr_state (recorders w ! r) = Recording" "r < length (recorders w)"
  shows "stopRecording h (a, w) =
           (length (promises w), a,
            w\<lparr>promises := promises w @ [Pending],
              recorders := (recorders w)[r := (recorders w ! r)
                 \<lparr>mr_onstop := Some (length (promises w)), mr_state := Inactive, mr_stop_queued := True\<rparr>],
              notices := notices w @ [''Recording stopped!'']\<rparr>)"
  using assms by (simp add: stopRecording_def upd_recorder_def mr_stop_def Notice_def Let_def)

lemma main_stopRecording_active:
  assumes "mediaRecorder a = Some r" "mr_state (recorders w ! r) = Recording" "r < length (recorders w)"
  shows "main_stopRecording h (a, w) = stopRecording h (a, w)"
  using assms by (simp add: stopRecording_def main_stopRecording_def)

lemma stop_then_stop_event:
  assumes "mediaRecorder a = Some r" and "r < length (recorders w)"
    and "mr_state (recorders w ! r) = Recording" and "mr_ondataavailable (recorders w ! r)"
    and "stream a = Some s" and "s < length (streams w)"
  shows "run Part_000 h (Stop # map (Data r) ds @ [Stopped r]) (a, w) =
           (a\<lparr>audioChunks := [], stream := None\<rparr>,
            w\<lparr>promises := promises w @ [Resolved (new_Blob (audioChunks a @ ds) ''audio/mp3'')],
              recorders := (recorders w)[r := (recorders w ! r)
                 \<lparr>mr_onstop := Some (length (promises w)), mr_state := Inactive, mr_stop_queued := False\<rparr>],
              notices := notices w @ [''Recording stopped!''],
              streams := (streams w)[s := map (\<lambda>_. False) (streams w ! s)]\<rparr>)"
    and "run Main_ts h (Stop # map (Data r) ds @ [Stopped r]) (a, w) =
           (a\<lparr>audioChunks := []\<rparr>,
            w\<lparr>promises := promises w @ [Resolved (new_Blob (audioChunks a @ ds) ''audio/mp3'')],
              recorders := (recorders w)[r := (recorders w ! r)
                 \<lparr>mr_onstop := Some (length (promises w)), mr_state := Inactive, mr_stop_queued := False\<rparr>],
              notices := notices w @ [''Recording stopped!''],
              streams := (streams w)[s := map (\<lambda>_. False) (streams w ! s)]\<rparr>)"
proof -
  define w1 where "w1 = w\<lparr>promises := promises w @ [Pending],
              recorders := (recorders w)[r := (recorders w ! r)
                 \<lparr>mr_onstop := Some (length (promises w)), mr_state := Inactive, mr_stop_queued := True\<rparr>],
              notices := notices w @ [''Recording stopped!'']\<rparr>"
  have st: "stopRecording h (a, w) = (length (promises w), a, w1)"
    unfolding w1_def using assms(1,3,2) by (rule stopRecording_active)
  have r1: "r < length (recorders w1)" "mr_ondataavailable (recorders w1 ! r)"
    "mr_stop_queued (recorders w1 ! r)" "mr_onstop (recorders w1 ! r) = Some (length (promises w))"
    using assms(2,4) by (simp_all add: w1_def)
  have d: "run v h (map (Data r) ds) (a, w1) = (a\<lparr>audioChunks := audioChunks a @ ds\<rparr>, w1)" for v
    using r1 by (simp add: data_while_stopping)
  have p: "run Part_000 h (Stop # map (Data r) ds @ [Stopped r]) (a, w) =
           fire_stop Part_000 r (a\<lparr>audioChunks := audioChunks a @ ds\<rparr>, w1)"
    by (simp add: run_Cons run_append run_Nil st d)
  have m: "run Main_ts h (Stop # map (Data r) ds @ [Stopped r]) (a, w) =
           fire_stop Main_ts r (a\<lparr>audioChunks := audioChunks a @ ds\<rparr>, w1)"
    by (simp add: run_Cons run_append run_Nil main_stopRecording_active [OF assms(1,3,2)] st d)
  show "run Part_000 h (Stop # map (Data r) ds @ [Stopped r]) (a, w) =
           (a\<lparr>audioChunks := [], stream := None\<rparr>,
            w\<lparr>promises := promises w @ [Resolved (new_Blob (audioChunks a @ ds) ''audio/mp3'')],
              recorders := (recorders w)[r := (recorders w ! r)
                 \<lparr>mr_onstop := Some (length (promises w)), mr_state := Inactive, mr_stop_queued := False\<rparr>],
              notices := notices w @ [''Recording stopped!''],
              streams := (streams w)[s := map (\<lambda>_. False) (streams w ! s)]\<rparr>)"
    unfolding p using r1 assms(5)
    by (simp add: fire_stop_def onstop_def upd_recorder_def stop_tracks_def resolve_def Let_def)
      (simp add: w1_def)
  show "run Main_ts h (Stop # map (Data r) ds @ [Stopped r]) (a, w) =
           (a\<lparr>audioChunks := []\<rparr>,
            w\<lparr>promises := promises w @ [Resolved (new_Blob (audioChunks a @ ds) ''audio/mp3'')],
              recorders := (recorders w)[r := (recorders w ! r)
                 \<lparr>mr_onstop := Some (length (promises w)), mr_state := Inactive, mr_stop_queued := False\<rparr>],
              notices := notices w @ [''Recording stopped!''],
              streams := (streams w)[s := map (\<lambda>_. False) (streams w ! s)]\<rparr>)"
    unfolding m using r1 assms(5)
    by (simp add: fire_stop_def main_onstop_def upd_recorder_def stop_tracks_def resolve_def Let_def)
      (simp add: w1_def)
qed

lemma onstop_order:
  "stream a = Some s \<Longrightarrow>
     onstop p (a, w) =
       (a\<lparr>audioChunks := [], stream := None\<rparr>,
        resolve p (new_Blob (audioChunks a) ''audio/mp3'') (stop_tracks s w))"
  by (simp add: onstop_def Let_def)

lemma main_onstop_order:
  "stream a = Some s \<Longrightarrow>
     main_onstop p (a, w) =
       (a\<lparr>audioChunks := []\<rparr>,
        resolve p (new_Blob (audioChunks a) ''audio/mp3'') (stop_tracks s w))"
  by (simp add: main_onstop_def Let_def)

text \<open>
  C6. The wrapper holds a recording recorder \<open>r\<close> and the stream \<open>s\<close>; \<open>cs\<close> is its buffer
  when \<^verbatim>\<open>stopRecording\<close> is called and \<open>ds\<close> are the chunks the host still delivers before
  the \<^verbatim>\<open>stop\<close> event, so that \<open>cs @ ds\<close> is the buffer when the handler runs. Then the promise
  returned by \<^verbatim>\<open>stopRecording\<close> is resolved with the bytes of \<open>cs @ ds\<close> in order, tagged
  \<^verbatim>\<open>audio/mp3\<close>; the buffer is empty afterwards; no track of \<open>s\<close> is live. The handler stops
  the tracks first and resolves in the state so reached. Both files agree.
\<close>

theorem stop_resolves_with_buffer:
  assumes "mediaRecorder a = Some r" and "r < length (recorders w)"
    and "mr_state (recorders w ! r) = Recording" and "mr_ondataavailable (recorders w ! r)"
    and "stream a = Some s" and "s < length (streams w)" and "audioChunks a = cs"
  shows "promises (snd (run v h (Stop # map (Data r) ds @ [Stopped r]) (a, w))) !
             fst (stopRecording h (a, w)) =
           Resolved \<lparr>blob_bytes = concat (map blob_bytes (cs @ ds)), blob_type = ''audio/mp3''\<rparr> \<and>
         audioChunks (fst (run v h (Stop # map (Data r) ds @ [Stopped r]) (a, w))) = [] \<and>
         True \<notin> set (streams (snd (run v h (Stop # map (Data r) ds @ [Stopped r]) (a, w))) ! s) \<and>
         fst (main_stopRecording h (a, w)) = fst (stopRecording h (a, w)) \<and>
         onstop p (a, w) =
           (a\<lparr>audioChunks := [], stream := None\<rparr>,
            resolve p (new_Blob cs ''audio/mp3'') (stop_tracks s w)) \<and>
         main_onstop p (a, w) =
           (a\<lparr>audioChunks := []\<rparr>, resolve p (new_Blob cs ''audio/mp3'') (stop_tracks s w))"
proof -
  note eqs = stop_then_stop_event [OF assms(1-6), of h ds]
  have st: "fst (stopRecording h (a, w)) = length (promises w)"
    by (simp add: stopRecording_active [OF assms(1,3,2)])
  have "promises (snd (run v h (Stop # map (Data r) ds @ [Stopped r]) (a, w))) !
             fst (stopRecording h (a, w)) =
           Resolved \<lparr>blob_bytes = concat (map blob_bytes (cs @ ds)), blob_type = ''audio/mp3''\<rparr> \<and>
          audioChunks (fst (run v h (Stop # map (Data r) ds @ [Stopped r]) (a, w))) = [] \<and>
          True \<notin> set (streams (snd (run v h (Stop # map (Data r) ds @ [Stopped r]) (a, w))) ! s)"
    using assms(6,7) by (cases v) (simp_all add: eqs st new_Blob_def)
  moreover have "fst (main_stopRecording h (a, w)) = fst (stopRecording h (a, w))"
    by (simp add: main_stopRecording_active [OF assms(1,3,2)])
  moreover note onstop_order [OF assms(5), of p w] main_onstop_order [OF assms(5), of p w]
  ultimately show ?thesis
    using assms(7) by simp
qed

theorem stop_resolves_with_buffer_witness:
  "run Part_000 \<lparr>isTypeSupported = (\<lambda>t. t = ''audio/webm''), stop_inactive_throws = False\<rparr>
     [Start (Granted 2), Data 0 \<lparr>blob_bytes = [1, 2], blob_type = ''audio/webm''\<rparr>]
     (new_AudioRecorder, empty_world) =
     (\<lparr>mediaRecorder = Some 0, audioChunks = [\<lparr>blob_bytes = [1, 2], blob_type = ''audio/webm''\<rparr>],
       stream = Some 0\<rparr>,
      empty_world\<lparr>streams := [[True, True]],
        recorders := [\<lparr>mr_stream = 0, mr_mimeType = ''audio/webm'', mr_state = Recording,
                       mr_stop_queued = False, mr_ondataavailable = True, mr_onstop = None\<rparr>],
        notices := [''Recording started...'']\<rparr>) \<and>
   promises (snd (run Part_000 \<lparr>isTypeSupported = (\<lambda>t. t = ''audio/webm''), stop_inactive_throws = False\<rparr>
     [Start (Granted 2), Data 0 \<lparr>blob_bytes = [1, 2], blob_type = ''audio/webm''\<rparr>,
      Stop, Data 0 \<lparr>blob_bytes = [3], blob_type = ''audio/webm''\<rparr>, Stopped 0]
     (new_AudioRecorder, empty_world))) ! 0 =
     Resolved \<lparr>blob_bytes = [1, 2, 3], blob_type = ''audio/mp3''\<rparr> \<and>
   True \<notin> set (streams (snd (run Part_000 \<lparr>isTypeSupported = (\<lambda>t. t = ''audio/webm''), stop_inactive_throws = False\<rparr>
     [Start (Granted 2), Data 0 \<lparr>blob_bytes = [1, 2], blob_type = ''audio/webm''\<rparr>,
      Stop, Data 0 \<lparr>blob_bytes = [3], blob_type = ''audio/webm''\<rparr>, Stopped 0]
     (new_AudioRecorder, empty_world))) ! 0)"
proof -
  let ?h = "\<lparr>isTypeSupported = (\<lambda>t. t = ''audio/webm''), stop_inactive_throws = False\<rparr>"
  let ?b1 = "\<lparr>blob_bytes = [1, 2], blob_type = ''audio/webm''\<rparr>"
  let ?b2 = "\<lparr>blob_bytes = [3], blob_type = ''audio/webm''\<rparr>"
  let ?a = "\<lparr>mediaRecorder = Some 0, audioChunks = [?b1], stream = Some 0\<rparr>"
  let ?w = "empty_world\<lparr>streams := [[True, True]],
        recorders := [\<lparr>mr_stream = 0, mr_mimeType = ''audio/webm'', mr_state = Recording,
                       mr_stop_queued = False, mr_ondataavailable = True, mr_onstop = None\<rparr>],
        notices := [''Recording started...'']\<rparr>"
  have reach: "run Part_000 ?h [Start (Granted 2), Data 0 ?b1] (new_AudioRecorder, empty_world) = (?a, ?w)"
    by (simp add: run_def startRecording_granted start_session_eq select_type_mimeTypes
          fire_dataavailable_def ondataavailable_def new_AudioRecorder_def empty_world_def
          eval_nat_numeral)
  have split: "run Part_000 ?h [Start (Granted 2), Data 0 ?b1, Stop, Data 0 ?b2, Stopped 0]
                 (new_AudioRecorder, empty_world) =
               run Part_000 ?h (Stop # map (Data 0) [?b2] @ [Stopped 0])
                 (run Part_000 ?h [Start (Granted 2), Data 0 ?b1] (new_AudioRecorder, empty_world))"
    by (simp add: run_def)
  have hyp: "mediaRecorder ?a = Some 0" "0 < length (recorders ?w)"
    "mr_state (recorders ?w ! 0) = Recording" "mr_ondataavailable (recorders ?w ! 0)"
    "stream ?a = Some 0" "0 < length (streams ?w)" "audioChunks ?a = [?b1]"
    by (simp_all add: empty_world_def)
  have fst0: "fst (stopRecording ?h (?a, ?w)) = 0"
    by (simp add: stopRecording_def empty_world_def Let_def split: sum.splits)
  show ?thesis
    using stop_resolves_with_buffer [OF hyp, of Part_000 ?h "[?b2]" 0] reach split fst0
    by (simp add: empty_world_def)
qed

lemma stopRecording_no_recorder:
  "mediaRecorder a = None \<Longrightarrow>
     stopRecording h (a, w) =
       (length (promises w), a, w\<lparr>promises := promises w @ [Resolved (new_Blob [] '''')]\<rparr>)"
  by (simp add: stopRecording_def resolve_def Let_def)

lemma upd_recorder_promises [simp]: "promises (upd_recorder r f w) = promises w"
  by (simp add: upd_recorder_def)

lemma upd_recorder_handlers_same:
  assumes "\<And>m. mr_onstop (f m) = mr_onstop m"
  shows "map mr_onstop (recorders (upd_recorder r f w)) = map mr_onstop (recorders w)"
proof (cases "r < length (recorders w)")
  case True
  then have "(map mr_onstop (recorders w))[r := mr_onstop (recorders w ! r)] = map mr_onstop (recorders w)"
    by (metis list_update_id nth_map)
  then show ?thesis
    by (simp add: upd_recorder_def map_update assms)
next
  case False
  then have "(recorders w)[r := f (recorders w ! r)] = recorders w"
    by (intro list_update_beyond) simp
  then show ?thesis
    by (simp add: upd_recorder_def)
qed

lemma upd_recorder_handlers_set:
  "set (map mr_onstop (recorders (upd_recorder r f w))) \<subseteq>
     insert (mr_onstop (f (recorders w ! r))) (set (map mr_onstop (recorders w)))"
  using set_update_subset_insert [of "map mr_onstop (recorders w)" r "mr_onstop (f (recorders w ! r))"]
  by (simp add: upd_recorder_def map_update)

lemma mr_stop_keeps:
  assumes "mr_stop h r w = Inr w2"
  shows "promises w2 = promises w" and "map mr_onstop (recorders w2) = map mr_onstop (recorders w)"
  using assms
  by (auto simp add: mr_stop_def upd_recorder_handlers_same split: recording_state.splits if_splits)

lemma resolve_other:
  "q \<noteq> p \<Longrightarrow> promises (resolve q b w) ! p = promises w ! p"
  "length (promises (resolve q b w)) = length (promises w)"
  "recorders (resolve q b w) = recorders w"
  by (simp_all add: resolve_def)

lemma reject_other:
  "q \<noteq> p \<Longrightarrow> promises (reject q err w) ! p = promises w ! p"
  "length (promises (reject q err w)) = length (promises w)"
  "recorders (reject q err w) = recorders w"
  by (simp_all add: reject_def)

lemma orphaned_stop:
  assumes "orphaned p (a, w)"
  shows "orphaned p (snd (stopRecording h (a, w)))" and "orphaned p (snd (main_stopRecording h (a, w)))"
proof -
  let ?q = "length (promises w)"
  let ?w0 = "w\<lparr>promises := promises w @ [Pending]\<rparr>"
  from assms have p: "p < ?q" "promises w ! p = Pending" "Some p \<notin> set (map mr_onstop (recorders w))"
    by (simp_all add: orphaned_def)
  then have ne: "?q \<noteq> p" by simp
  have o0: "orphaned p (a, ?w0)"
    using p by (simp add: orphaned_def nth_append)
  have o1: "orphaned p (a, upd_recorder r (\<lambda>m. m\<lparr>mr_onstop := Some ?q\<rparr>) ?w0)" for r
    using p ne upd_recorder_handlers_set [of r "\<lambda>m. m\<lparr>mr_onstop := Some ?q\<rparr>" ?w0]
    by (auto simp add: orphaned_def nth_append)
  have o2: "orphaned p (a, w2)"
    if "mr_stop h r (upd_recorder r (\<lambda>m. m\<lparr>mr_onstop := Some ?q\<rparr>) ?w0) = Inr w2" for r w2
    using o1 [of r] mr_stop_keeps [OF that] by (simp add: orphaned_def)
  have rs: "orphaned p (a, resolve ?q b w')" if "orphaned p (a, w')" for b w'
    using that ne by (simp add: orphaned_def resolve_other)
  have rj: "orphaned p (a, reject ?q e w')" if "orphaned p (a, w')" for e w'
    using that ne by (simp add: orphaned_def reject_other)
  have nt: "orphaned p (a, Notice m w')" if "orphaned p (a, w')" for m w'
    using that by (simp add: orphaned_def Notice_def)
  show "orphaned p (snd (stopRecording h (a, w)))"
    by (auto simp add: stopRecording_def Let_def rs rj nt o0 o1 o2 split: option.splits sum.splits)
  show "orphaned p (snd (main_stopRecording h (a, w)))"
    by (auto simp add: main_stopRecording_def Let_def rs rj nt o0 o1 o2 split: option.splits sum.splits)
qed

lemma orphaned_start:
  assumes "orphaned p (a, w)"
  shows "orphaned p (snd (startRecording h answer (a, w)))"
    and "orphaned p (snd (main_startRecording h answer (a, w)))"
  using assms
  by (cases answer; simp add: startRecording_denied startRecording_granted main_startRecording_granted
        main_startRecording_def start_session_eq orphaned_def)+

lemma orphaned_data:
  "orphaned p aw \<Longrightarrow> orphaned p (fire_dataavailable r d aw)"
  by (cases aw) (simp add: fire_dataavailable_def orphaned_def)

lemma orphaned_fire_stop:
  assumes "orphaned p (a, w)"
  shows "orphaned p (fire_stop v r (a, w))"
proof (cases "r < length (recorders w) \<and> mr_stop_queued (recorders w ! r)")
  case False
  then show ?thesis using assms by (auto simp add: fire_stop_def)
next
  case True
  let ?w1 = "upd_recorder r (\<lambda>m. m\<lparr>mr_stop_queued := False\<rparr>) w"
  have o1: "orphaned p (a', ?w1)" for a'
    using assms by (simp add: orphaned_def upd_recorder_handlers_same)
  show ?thesis
  proof (cases "mr_onstop (recorders w ! r)")
    case None
    then show ?thesis using True o1 by (simp add: fire_stop_def Let_def)
  next
    case (Some q)
    have "Some q \<in> set (map mr_onstop (recorders w))"
      using True Some by (metis length_map nth_map nth_mem)
    with assms have ne: "q \<noteq> p"
      by (auto simp add: orphaned_def)
    have st: "orphaned p (a', stop_tracks s w')" if "orphaned p (a', w')" for a' s w'
      using that by (simp add: orphaned_def stop_tracks_def)
    have rs: "orphaned p (a', resolve q b w')" if "orphaned p (a'', w')" for a' a'' b w'
      using that ne by (simp add: orphaned_def resolve_other)
    show ?thesis
      using True Some
      by (cases v)
        (auto simp add: fire_stop_def onstop_def main_onstop_def Let_def split: option.splits
          intro!: rs st o1)
  qed
qed

lemma orphaned_step: "orphaned p aw \<Longrightarrow> orphaned p (step v h e aw)"
  by (cases aw; cases v; cases e)
    (simp_all add: orphaned_start orphaned_stop orphaned_data orphaned_fire_stop)

lemma orphaned_run: "orphaned p aw \<Longrightarrow> orphaned p (run v h es aw)"
proof (induction es arbitrary: aw)
  case Nil
  then show ?case by (simp add: run_Nil)
next
  case (Cons e es)
  then show ?case by (simp add: run_Cons orphaned_step)
qed

lemma main_stopRecording_no_recorder:
  "mediaRecorder a = None \<Longrightarrow>
     main_stopRecording h (a, w) = (length (promises w), a, w\<lparr>promises := promises w @ [Pending]\<rparr>)"
  by (simp add: main_stopRecording_def Let_def)

text \<open>
  C1 fails in main.ts. On a wrapper without recorder, \<^verbatim>\<open>stopRecording\<close> of main.ts returns a
  promise that is pending and that no handler refers to (the executor returns before
  \<^verbatim>\<open>onstop\<close> is installed). Whatever follows, starts, stops, chunks and stop events in any
  order, the promise stays pending. In part_000 the promise is resolved at the call with the
  empty object (\<open>stopRecording_no_recorder\<close>).
\<close>

theorem main_stop_without_start_never_settles:
  assumes "mediaRecorder a = None"
    and "Some (length (promises w)) \<notin> set (map mr_onstop (recorders w))"
  shows "promises (snd (run Main_ts h es (snd (main_stopRecording h (a, w))))) !
           fst (main_stopRecording h (a, w)) = Pending"
proof -
  have "orphaned (length (promises w)) (a, w\<lparr>promises := promises w @ [Pending]\<rparr>)"
    using assms(2) by (simp add: orphaned_def)
  then have "orphaned (length (promises w))
               (run Main_ts h es (a, w\<lparr>promises := promises w @ [Pending]\<rparr>))"
    by (rule orphaned_run)
  then show ?thesis
    by (simp add: main_stopRecording_no_recorder [OF assms(1)] orphaned_def)
qed

theorem main_stop_without_start_never_settles_witness:
  "mediaRecorder new_AudioRecorder = None \<and>
   Some (length (promises empty_world)) \<notin> set (map mr_onstop (recorders empty_world)) \<and>
   fst (main_stopRecording \<lparr>isTypeSupported = (\<lambda>t. False), stop_inactive_throws = False\<rparr>
          (new_AudioRecorder, empty_world)) = 0 \<and>
   promises (snd (run Main_ts \<lparr>isTypeSupported = (\<lambda>t. False), stop_inactive_throws = False\<rparr>
       [Start (Granted 1), Stop, Stopped 0]
       (snd (main_stopRecording \<lparr>isTypeSupported = (\<lambda>t. False), stop_inactive_throws = False\<rparr>
          (new_AudioRecorder, empty_world))))) ! 0 = Pending \<and>
   promises (snd (snd (stopRecording \<lparr>isTypeSupported = (\<lambda>t. False), stop_inactive_throws = False\<rparr>
          (new_AudioRecorder, empty_world)))) ! 0 = Resolved \<lparr>blob_bytes = [], blob_type = ''''\<rparr>"
  using main_stop_without_start_never_settles
    [of new_AudioRecorder empty_world "\<lparr>isTypeSupported = (\<lambda>t. False), stop_inactive_throws = False\<rparr>"
        "[Start (Granted 1), Stop, Stopped 0]"]
  by (simp add: new_AudioRecorder_def empty_world_def main_stopRecording_def stopRecording_def
        resolve_def new_Blob_def Let_def)

lemma mediaRecorder_step:
  "mediaRecorder (fst (step v h e (a, w))) =
     (case e of Start (Granted n) \<Rightarrow> Some (length (recorders w)) | _ \<Rightarrow> mediaRecorder a)"
  by (cases v; cases e)
    (auto simp add: startRecording_denied startRecording_granted main_startRecording_granted
       main_startRecording_def start_session_eq stopRecording_def main_stopRecording_def
       fire_dataavailable_def ondataavailable_def fire_stop_def onstop_def main_onstop_def Let_def
       split: media_answer.splits option.splits sum.splits version.splits)

lemma mediaRecorder_run:
  "(mediaRecorder (fst (run v h es aw)) = None) =
     (mediaRecorder (fst aw) = None \<and> (\<forall>n. Start (Granted n) \<notin> set es))"
proof (induction es arbitrary: aw)
  case Nil
  then show ?case by (simp add: run_Nil)
next
  case (Cons e es)
  obtain a w where aw: "aw = (a, w)" by (cases aw)
  have "(mediaRecorder (fst (step v h e (a, w))) = None) =
          (mediaRecorder a = None \<and> (\<forall>n. Start (Granted n) \<noteq> e))"
    by (auto simp add: mediaRecorder_step split: event.splits media_answer.splits)
  then show ?case
    using Cons.IH [of "step v h e aw"] by (auto simp add: run_Cons aw)
qed

lemma stopRecording_with_recorder:
  assumes "mediaRecorder a = Some r"
  shows "fst (stopRecording h (a, w)) = length (promises w)"
    and "promises (snd (snd (stopRecording h (a, w)))) ! length (promises w) = Pending \<or>
         promises (snd (snd (stopRecording h (a, w)))) ! length (promises w) = Rejected ''InvalidStateError''"
proof -
  let ?w1 = "upd_recorder r (\<lambda>m. m\<lparr>mr_onstop := Some (length (promises w))\<rparr>)
               (w\<lparr>promises := promises w @ [Pending]\<rparr>)"
  show "fst (stopRecording h (a, w)) = length (promises w)"
    using assms by (simp add: stopRecording_def Let_def split: sum.splits)
  show "promises (snd (snd (stopRecording h (a, w)))) ! length (promises w) = Pending \<or>
         promises (snd (snd (stopRecording h (a, w)))) ! length (promises w) = Rejected ''InvalidStateError''"
  proof (cases "mr_stop h r ?w1")
    case (Inl err)
    then have "err = ''InvalidStateError''"
      by (auto simp add: mr_stop_def split: recording_state.splits if_splits)
    then show ?thesis
      using assms Inl by (simp add: stopRecording_def Let_def reject_def)
  next
    case (Inr w2)
    then show ?thesis
      using assms mr_stop_keeps(1) [OF Inr] by (simp add: stopRecording_def Let_def Notice_def)
  qed
qed

text \<open>
  C9, as the code has it. Nothing ever resets the recorder reference of the wrapper: after any
  events it is \<^verbatim>\<open>null\<close> exactly when none of them was a start whose device-access request
  was granted. \<^verbatim>\<open>stopRecording\<close> resolves its promise at the call with the empty object exactly
  when the reference is \<^verbatim>\<open>null\<close>. After a completed cycle of start, stop and stop event the
  reference is still set, and the promise of a second stop is rejected (where the host's
  \<^verbatim>\<open>stop()\<close> throws on an inactive recorder) or pending (where it does nothing).
\<close>

theorem empty_branch_iff_no_recorder:
  "(mediaRecorder (fst (run Part_000 h es (new_AudioRecorder, w))) = None) =
     (\<forall>n. Start (Granted n) \<notin> set es) \<and>
   (promises (snd (snd (stopRecording h (a, w)))) ! fst (stopRecording h (a, w)) =
      Resolved (new_Blob [] '''')) = (mediaRecorder a = None) \<and>
   mediaRecorder (fst (run Part_000 h [Start (Granted n), Stop, Stopped (length (recorders w))] (a, w))) =
     Some (length (recorders w)) \<and>
   promises (snd (snd (stopRecording h
       (run Part_000 h [Start (Granted n), Stop, Stopped (length (recorders w))] (a, w))))) !
     fst (stopRecording h
       (run Part_000 h [Start (Granted n), Stop, Stopped (length (recorders w))] (a, w))) =
     (if stop_inactive_throws h then Rejected ''InvalidStateError'' else Pending)"
proof (intro conjI)
  show "(mediaRecorder (fst (run Part_000 h es (new_AudioRecorder, w))) = None) =
     (\<forall>n. Start (Granted n) \<notin> set es)"
    by (simp add: mediaRecorder_run new_AudioRecorder_def)
  show "(promises (snd (snd (stopRecording h (a, w)))) ! fst (stopRecording h (a, w)) =
      Resolved (new_Blob [] '''')) = (mediaRecorder a = None)"
  proof (cases "mediaRecorder a")
    case None
    then show ?thesis by (simp add: stopRecording_no_recorder)
  next
    case (Some r)
    then show ?thesis
      using stopRecording_with_recorder [OF Some, of h w] by auto
  qed
  show "mediaRecorder (fst (run Part_000 h [Start (Granted n), Stop, Stopped (length (recorders w))] (a, w))) =
     Some (length (recorders w))"
    using mediaRecorder_step [of Part_000 h "Stopped (length (recorders w))"
            "fst (step Part_000 h Stop (step Part_000 h (Start (Granted n)) (a, w)))"
            "snd (step Part_000 h Stop (step Part_000 h (Start (Granted n)) (a, w)))"]
      mediaRecorder_step [of Part_000 h Stop
            "fst (step Part_000 h (Start (Granted n)) (a, w))"
            "snd (step Part_000 h (Start (Granted n)) (a, w))"]
      mediaRecorder_step [of Part_000 h "Start (Granted n)" a w]
    by (simp add: run_Cons run_Nil)
  show "promises (snd (snd (stopRecording h
       (run Part_000 h [Start (Granted n), Stop, Stopped (length (recorders w))] (a, w))))) !
     fst (stopRecording h
       (run Part_000 h [Start (Granted n), Stop, Stopped (length (recorders w))] (a, w))) =
     (if stop_inactive_throws h then Rejected ''InvalidStateError'' else Pending)"
    by (simp add: run_Cons run_Nil startRecording_granted start_session_eq
          stopRecording_def mr_stop_def upd_recorder_def Notice_def fire_stop_def onstop_def
          stop_tracks_def resolve_def reject_def nth_append Let_def)
qed

theorem empty_branch_iff_no_recorder_witness:
  "mediaRecorder (fst (run Part_000 \<lparr>isTypeSupported = (\<lambda>t. False), stop_inactive_throws = False\<rparr>
      [Stop, Data 0 \<lparr>blob_bytes = [1], blob_type = ''''\<rparr>]
      (new_AudioRecorder, empty_world))) = None \<and>
   mediaRecorder (fst (run Part_000 \<lparr>isTypeSupported = (\<lambda>t. False), stop_inactive_throws = False\<rparr>
      [Start (Granted 1), Stop, Stopped 0] (new_AudioRecorder, empty_world))) = Some 0 \<and>
   promises (snd (snd (stopRecording \<lparr>isTypeSupported = (\<lambda>t. False), stop_inactive_throws = False\<rparr>
      (run Part_000 \<lparr>isTypeSupported = (\<lambda>t. False), stop_inactive_throws = False\<rparr>
         [Start (Granted 1), Stop, Stopped 0] (new_AudioRecorder, empty_world))))) ! 1 = Pending"
  using empty_branch_iff_no_recorder
    [of "\<lparr>isTypeSupported = (\<lambda>t. False), stop_inactive_throws = False\<rparr>"
        "[Stop, Data 0 \<lparr>blob_bytes = [1], blob_type = ''''\<rparr>]" empty_world new_AudioRecorder 1]
  by (simp add: empty_world_def run_def startRecording_granted start_session_eq
        stopRecording_def mr_stop_def upd_recorder_def Notice_def fire_stop_def onstop_def
        stop_tracks_def resolve_def Let_def new_AudioRecorder_def)

text \<open>
  C9 as stated fails: on this wrapper \<^verbatim>\<open>startRecording\<close> has been called (the request was
  denied), and \<^verbatim>\<open>stopRecording\<close> resolves with the object of size zero.
\<close>

theorem stop_after_denied_start_counterexample:
  "Start (Denied ''NotAllowedError'') \<in> set [Start (Denied ''NotAllowedError'')] \<and>
   promises (snd (snd (stopRecording \<lparr>isTypeSupported = (\<lambda>t. False), stop_inactive_throws = False\<rparr>
      (run Part_000 \<lparr>isTypeSupported = (\<lambda>t. False), stop_inactive_throws = False\<rparr>
         [Start (Denied ''NotAllowedError'')] (new_AudioRecorder, empty_world))))) !
     fst (stopRecording \<lparr>isTypeSupported = (\<lambda>t. False), stop_inactive_throws = False\<rparr>
      (run Part_000 \<lparr>isTypeSupported = (\<lambda>t. False), stop_inactive_throws = False\<rparr>
         [Start (Denied ''NotAllowedError'')] (new_AudioRecorder, empty_world))) =
     Resolved \<lparr>blob_bytes = [], blob_type = ''''\<rparr> \<and>
   blob_size \<lparr>blob_bytes = [], blob_type = ''''\<rparr> = 0"
  by (simp add: run_def startRecording_denied stopRecording_def resolve_def new_Blob_def
        new_AudioRecorder_def empty_world_def blob_size_def Let_def)

subsection \<open>References stay valid, a dropped stream stays as it is\<close>

text \<open>
  The definitions read the store with \<open>!\<close>. In every state reached from a fresh wrapper the
  indices read are in range (\<open>valid_refs_run\<close>): identifiers are only ever created as the
  next index of the store. A stream the wrapper no longer refers to is never touched again
  (\<open>unreferenced_run\<close>): only \<^verbatim>\<open>this.stream\<close> is ever stopped.
\<close>

lemma mr_stop_streams: "mr_stop h r w = Inr w2 \<Longrightarrow> streams w2 = streams w"
  by (auto simp add: mr_stop_def upd_recorder_def split: recording_state.splits if_splits)

lemma valid_refs_start:
  assumes "valid_refs (a, w)"
  shows "valid_refs (snd (startRecording h answer (a, w)))"
    and "valid_refs (snd (main_startRecording h answer (a, w)))"
  using assms
  by (cases answer; simp add: startRecording_denied startRecording_granted main_startRecording_granted
        main_startRecording_def start_session_eq split: option.splits)+

lemma list_all_update:
  "list_all P xs \<Longrightarrow> P x \<Longrightarrow> list_all P (xs[i := x])"
  using set_update_subset_insert [of xs i x] by (auto simp add: list_all_iff)

lemma valid_refs_stop:
  assumes "valid_refs (a, w)"
  shows "valid_refs (snd (stopRecording h (a, w)))" and "valid_refs (snd (main_stopRecording h (a, w)))"
proof -
  let ?q = "length (promises w)"
  let ?w0 = "w\<lparr>promises := promises w @ [Pending]\<rparr>"
  let ?ok = "\<lambda>n q. case q of None \<Rightarrow> True | Some p \<Rightarrow> p < (n::nat)"
  have mono: "list_all (?ok (Suc ?q)) (map mr_onstop (recorders w))"
    using assms by (auto simp add: list_all_iff split: option.splits)
  have v0: "valid_refs (a, ?w0)"
    using assms mono by (simp split: option.splits)
  have v1: "valid_refs (a, upd_recorder r (\<lambda>m. m\<lparr>mr_onstop := Some ?q\<rparr>) ?w0)" for r
    using assms list_all_update [OF mono, of "Some ?q" r]
    by (simp add: upd_recorder_def map_update split: option.splits)
  have v2: "valid_refs (a, w2)"
    if "mr_stop h r (upd_recorder r (\<lambda>m. m\<lparr>mr_onstop := Some ?q\<rparr>) ?w0) = Inr w2" for r w2
  proof -
    let ?w1 = "upd_recorder r (\<lambda>m. m\<lparr>mr_onstop := Some ?q\<rparr>) ?w0"
    have "length (recorders w2) = length (recorders ?w1)"
      using mr_stop_keeps(2) [OF that] by (metis length_map)
    then show ?thesis
      using v1 [of r] mr_stop_keeps [OF that] mr_stop_streams [OF that]
      by (simp split: option.splits)
  qed
  have rs: "valid_refs (a, resolve p b w') = valid_refs (a, w')" for p b w'
    by (simp add: resolve_def split: option.splits)
  have rj: "valid_refs (a, reject p e w') = valid_refs (a, w')" for p e w'
    by (simp add: reject_def split: option.splits)
  have nt: "valid_refs (a, Notice m w') = valid_refs (a, w')" for m w'
    by (simp add: Notice_def split: option.splits)
  show "valid_refs (snd (stopRecording h (a, w)))"
    by (auto simp add: stopRecording_def Let_def rs rj nt v0 v1 v2 simp del: valid_refs.simps
          split: option.splits sum.splits)
  show "valid_refs (snd (main_stopRecording h (a, w)))"
    by (auto simp add: main_stopRecording_def Let_def rs rj nt v0 v1 v2 simp del: valid_refs.simps
          split: option.splits sum.splits)
qed

lemma valid_refs_data:
  "valid_refs aw \<Longrightarrow> valid_refs (fire_dataavailable r d aw)"
  by (cases aw) (simp add: fire_dataavailable_def ondataavailable_def)

lemma valid_refs_fire_stop:
  assumes "valid_refs (a, w)"
  shows "valid_refs (fire_stop v r (a, w))"
proof -
  let ?w1 = "upd_recorder r (\<lambda>m. m\<lparr>mr_stop_queued := False\<rparr>) w"
  have len: "length (recorders ?w1) = length (recorders w)"
    by (simp add: upd_recorder_def)
  have str: "streams ?w1 = streams w"
    by (simp add: upd_recorder_def)
  have v1: "valid_refs (a', ?w1) = valid_refs (a', w)" for a'
    by (simp add: upd_recorder_handlers_same len str split: option.splits)
  have rs: "valid_refs (a', resolve p b w') = valid_refs (a', w')" for a' p b w'
    by (simp add: resolve_def split: option.splits)
  have st: "valid_refs (a', stop_tracks s w') = valid_refs (a', w')" for a' s w'
    by (simp add: stop_tracks_def split: option.splits)
  have ch: "valid_refs (a\<lparr>audioChunks := []\<rparr>, w)" "valid_refs (a\<lparr>audioChunks := [], stream := None\<rparr>, w)"
    using assms by (simp_all split: option.splits)
  show ?thesis
    using assms ch
    by (cases v)
      (auto simp add: fire_stop_def onstop_def main_onstop_def Let_def rs st v1
        simp del: valid_refs.simps split: option.splits)
qed

lemma valid_refs_step: "valid_refs aw \<Longrightarrow> valid_refs (step v h e aw)"
  by (cases aw; cases v; cases e)
    (simp_all add: valid_refs_start valid_refs_stop valid_refs_data valid_refs_fire_stop)

lemma valid_refs_run: "valid_refs aw \<Longrightarrow> valid_refs (run v h es aw)"
proof (induction es arbitrary: aw)
  case Nil
  then show ?case by (simp add: run_Nil)
next
  case (Cons e es)
  then show ?case by (simp add: run_Cons valid_refs_step)
qed

lemma valid_refs_fresh: "valid_refs (new_AudioRecorder, empty_world)"
  by (simp add: new_AudioRecorder_def empty_world_def)

lemma unreferenced_start:
  assumes "unreferenced s ts (a, w)"
  shows "unreferenced s ts (snd (startRecording h answer (a, w)))"
    and "unreferenced s ts (snd (main_startRecording h answer (a, w)))"
  using assms
  by (cases answer; simp add: startRecording_denied startRecording_granted main_startRecording_granted
        main_startRecording_def start_session_eq unreferenced_def nth_append)+

lemma unreferenced_stop:
  assumes "unreferenced s ts (a, w)"
  shows "unreferenced s ts (snd (stopRecording h (a, w)))"
    and "unreferenced s ts (snd (main_stopRecording h (a, w)))"
  using assms
  by (auto simp add: stopRecording_def main_stopRecording_def unreferenced_def Let_def resolve_def
        reject_def Notice_def upd_recorder_def mr_stop_streams split: option.splits sum.splits)

lemma unreferenced_data:
  "unreferenced s ts aw \<Longrightarrow> unreferenced s ts (fire_dataavailable r d aw)"
  by (cases aw) (simp add: fire_dataavailable_def ondataavailable_def unreferenced_def)

lemma unreferenced_fire_stop:
  "unreferenced s ts aw \<Longrightarrow> unreferenced s ts (fire_stop v r aw)"
  by (cases aw; cases v)
    (auto simp add: fire_stop_def onstop_def main_onstop_def unreferenced_def Let_def resolve_def
       stop_tracks_def upd_recorder_def split: option.splits)

lemma unreferenced_step: "unreferenced s ts aw \<Longrightarrow> unreferenced s ts (step v h e aw)"
  by (cases aw; cases v; cases e)
    (simp_all add: unreferenced_start unreferenced_stop unreferenced_data unreferenced_fire_stop)

lemma unreferenced_run: "unreferenced s ts aw \<Longrightarrow> unreferenced s ts (run v h es aw)"
proof (induction es arbitrary: aw)
  case Nil
  then show ?case by (simp add: run_Nil)
next
  case (Cons e es)
  then show ?case by (simp add: run_Cons unreferenced_step)
qed

lemma second_start_drops_first:
  "unreferenced (length (streams w)) (replicate n True)
     (run v h [Start (Granted n), Start (Granted m)] (a, w))"
  by (cases v)
    (simp_all add: run_Cons run_Nil startRecording_granted main_startRecording_granted
       start_session_eq unreferenced_def nth_append)

lemma unreferenced_live:
  "unreferenced s ts aw \<Longrightarrow> True \<in> set ts \<Longrightarrow> s \<in> set (live_streams (snd aw))"
  by (simp add: unreferenced_def live_streams_def)

section \<open>Properties of the rename dialog\<close>

lemma not_whitespace_dot: "\<not> is_whitespace (CHR ''.'')"
  by (simp add: is_whitespace_def)

lemma not_whitespace_3: "\<not> is_whitespace (CHR ''3'')"
  by (simp add: is_whitespace_def)

lemma trim_mp3: "trim (s @ ''.mp3'') = dropWhile is_whitespace s @ ''.mp3''"
proof -
  have "dropWhile is_whitespace (s @ ''.mp3'') = dropWhile is_whitespace s @ ''.mp3''"
    by (simp add: dropWhile_append not_whitespace_dot)
  then show ?thesis
    by (simp add: trim_def not_whitespace_3)
qed

text \<open>
  C10. When the trimmed content \<open>s\<close> of the input field is not empty, the rename button
  hands exactly \<open>s @ ''.mp3''\<close> to the callback, whatever \<open>s\<close> ends in; when it is empty the
  click does nothing. The field is pre-filled with the entry's name followed by \<^verbatim>\<open>.mp3\<close>, so
  confirming the pre-filled text asks for a name ending in \<^verbatim>\<open>.mp3.mp3\<close>. The callback
  \<open>\<lambda>newName calls. calls @ [newName]\<close> records what it is called with.
\<close>

theorem rename_appends_suffix:
  "(trim (inputEl_value m) \<noteq> [] \<longrightarrow>
      snd (renameBtn_onclick onRename (m, w)) = onRename (trim (inputEl_value m) @ ''.mp3'') w) \<and>
   (trim (inputEl_value m) = [] \<longrightarrow> renameBtn_onclick onRename (m, w) = (m, w)) \<and>
   snd (renameBtn_onclick (\<lambda>newName calls. calls @ [newName]) (RenameModal_onOpen m, [])) =
     [dropWhile is_whitespace (name (modal_file m)) @ ''.mp3.mp3''] \<and>
   suffix ''.mp3.mp3'' (dropWhile is_whitespace (name (modal_file m)) @ ''.mp3.mp3'')"
  by (simp add: renameBtn_onclick_def RenameModal_onOpen_def trim_mp3 suffix_def Let_def)

theorem rename_appends_suffix_witness:
  "trim (inputEl_value \<lparr>modal_file = \<lparr>path = ''Audio/a.mp3'', name = ''a.mp3''\<rparr>,
                        inputEl_value = '' take 1.mp3 '', rename_open = True\<rparr>) \<noteq> [] \<and>
   snd (renameBtn_onclick (\<lambda>newName calls. calls @ [newName])
          (\<lparr>modal_file = \<lparr>path = ''Audio/a.mp3'', name = ''a.mp3''\<rparr>,
            inputEl_value = '' take 1.mp3 '', rename_open = True\<rparr>, [])) = [''take 1.mp3.mp3''] \<and>
   snd (renameBtn_onclick (\<lambda>newName calls. calls @ [newName])
          (RenameModal_onOpen \<lparr>modal_file = \<lparr>path = ''Audio/a.mp3'', name = ''a.mp3''\<rparr>,
            inputEl_value = '''', rename_open = False\<rparr>, [])) = [''a.mp3.mp3.mp3'']"
  using rename_appends_suffix
    [of "\<lparr>modal_file = \<lparr>path = ''Audio/a.mp3'', name = ''a.mp3''\<rparr>,
          inputEl_value = '' take 1.mp3 '', rename_open = True\<rparr>"
        "\<lambda>newName calls. calls @ [newName]" "[]"]
    rename_appends_suffix
    [of "\<lparr>modal_file = \<lparr>path = ''Audio/a.mp3'', name = ''a.mp3''\<rparr>,
          inputEl_value = '''', rename_open = False\<rparr>"
        "\<lambda>newName calls. calls @ [newName]" "[]"]
  by (simp add: trim_def is_whitespace_def)

section \<open>Properties of the rename callback\<close>

lemma rename_callback_collision:
  "newName \<noteq> [] \<Longrightarrow> newName \<noteq> name f \<Longrightarrow> adapter_exists w (''Audio/'' @ newName) \<Longrightarrow>
     rename_callback f newName w =
       Notice (''Error: A file named '' @ [CHR 0x22] @ newName @ [CHR 0x22] @ '' already exists'') w"
  by (simp add: rename_callback_def rename_callback_starts_def rename_callback_resumed_def)

lemma rename_callback_same_name: "rename_callback f (name f) w = w"
  by (simp add: rename_callback_def rename_callback_starts_def)

lemma renameBtn_onclick_eq:
  "trim v \<noteq> [] \<Longrightarrow>
     renameBtn_onclick onRename (\<lparr>modal_file = f, inputEl_value = v, rename_open = True\<rparr>, q) =
       (\<lparr>modal_file = f\<lparr>name := trim v\<rparr>, inputEl_value = v, rename_open = False\<rparr>,
        onRename (trim v @ ''.mp3'') q)"
  by (simp add: renameBtn_onclick_def Let_def)

lemma rename_submit_eq:
  "trim v \<noteq> [] \<Longrightarrow>
     rename_submit f v w =
       (if trim v @ ''.mp3'' \<noteq> name f
        then rename_callback_resumed f (trim v @ ''.mp3'') (file_name_assign f (trim v) w)
        else file_name_assign f (trim v) w)"
  by (simp add: rename_submit_def renameBtn_onclick_eq rename_callback_starts_def)

lemma map_path_assign:
  "map path (map (\<lambda>t. if path t = p then t\<lparr>name := n\<rparr> else t) ts) = map path ts"
  by (induction ts) simp_all

lemma filter_others_assign:
  "filter (\<lambda>t. path t \<noteq> p) (map (\<lambda>t. if path t = p then t\<lparr>name := n\<rparr> else t) ts) =
     filter (\<lambda>t. path t \<noteq> p) ts"
  by (induction ts) simp_all

lemma file_name_assign_keeps:
  "files (file_name_assign f n w) = files w"
  "folders (file_name_assign f n w) = folders w"
  "notices (file_name_assign f n w) = notices w"
  "map path (tfiles (file_name_assign f n w)) = map path (tfiles w)"
  "filter (\<lambda>t. path t \<noteq> path f) (tfiles (file_name_assign f n w)) =
     filter (\<lambda>t. path t \<noteq> path f) (tfiles w)"
  "adapter_exists (file_name_assign f n w) p = adapter_exists w p"
  by (simp_all add: file_name_assign_def adapter_exists_def map_path_assign filter_others_assign)

text \<open>
  C3, as the code has it. The rename dialog is open for the entry \<open>f\<close> of the playback list,
  \<open>v\<close> is in its input field, not blank, and the rename button is clicked; the name asked
  for is \<open>trim v @ ''.mp3''\<close>. When that name differs from the entry's current name and
  something is already at \<^verbatim>\<open>Audio/<newName>\<close>, the failure notice is surfaced and no rename
  is performed: what is stored, the folders and every object's path are as before, and so
  is every object of another file, the one at the destination among them. When the name asked
  for is the entry's current name, no notice is surfaced and no rename is performed.
  Nothing is said here of the name field of the entry's own object.
\<close>

theorem rename_collision_reported:
  "(trim v \<noteq> [] \<and> trim v @ ''.mp3'' \<noteq> name f \<and>
    adapter_exists w (''Audio/'' @ trim v @ ''.mp3'') \<longrightarrow>
      notices (rename_submit f v w) =
        notices w @ [''Error: A file named '' @ [CHR 0x22] @ trim v @ ''.mp3'' @ [CHR 0x22] @
                     '' already exists''] \<and>
      files (rename_submit f v w) = files w \<and>
      folders (rename_submit f v w) = folders w \<and>
      map path (tfiles (rename_submit f v w)) = map path (tfiles w) \<and>
      filter (\<lambda>t. path t \<noteq> path f) (tfiles (rename_submit f v w)) =
        filter (\<lambda>t. path t \<noteq> path f) (tfiles w)) \<and>
   (trim v \<noteq> [] \<and> trim v @ ''.mp3'' = name f \<longrightarrow>
      notices (rename_submit f v w) = notices w \<and>
      files (rename_submit f v w) = files w \<and>
      folders (rename_submit f v w) = folders w \<and>
      map path (tfiles (rename_submit f v w)) = map path (tfiles w))"
proof (intro conjI impI)
  assume a: "trim v \<noteq> [] \<and> trim v @ ''.mp3'' \<noteq> name f \<and>
    adapter_exists w (''Audio/'' @ trim v @ ''.mp3'')"
  then have eq: "rename_submit f v w =
      Notice (''Error: A file named '' @ [CHR 0x22] @ (trim v @ ''.mp3'') @ [CHR 0x22] @
              '' already exists'') (file_name_assign f (trim v) w)"
    by (simp add: rename_submit_eq rename_callback_resumed_def file_name_assign_keeps)
  show "notices (rename_submit f v w) =
        notices w @ [''Error: A file named '' @ [CHR 0x22] @ trim v @ ''.mp3'' @ [CHR 0x22] @
                     '' already exists'']"
    by (simp add: eq Notice_def file_name_assign_keeps)
  show "files (rename_submit f v w) = files w"
    by (simp add: eq Notice_def file_name_assign_keeps)
  show "folders (rename_submit f v w) = folders w"
    by (simp add: eq Notice_def file_name_assign_keeps)
  show "map path (tfiles (rename_submit f v w)) = map path (tfiles w)"
    by (simp add: eq Notice_def file_name_assign_keeps)
  show "filter (\<lambda>t. path t \<noteq> path f) (tfiles (rename_submit f v w)) =
        filter (\<lambda>t. path t \<noteq> path f) (tfiles w)"
    by (simp add: eq Notice_def file_name_assign_keeps)
next
  assume a: "trim v \<noteq> [] \<and> trim v @ ''.mp3'' = name f"
  then have eq: "rename_submit f v w = file_name_assign f (trim v) w"
    by (simp add: rename_submit_eq)
  show "notices (rename_submit f v w) = notices w" "files (rename_submit f v w) = files w"
    "folders (rename_submit f v w) = folders w"
    "map path (tfiles (rename_submit f v w)) = map path (tfiles w)"
    by (simp_all add: eq file_name_assign_keeps)
qed

theorem rename_collision_reported_witness:
  "trim '' b '' \<noteq> [] \<and>
   trim '' b '' @ ''.mp3'' \<noteq> name \<lparr>path = ''Audio/a.mp3'', name = ''a.mp3''\<rparr> \<and>
   adapter_exists
     (empty_world\<lparr>folders := [''Audio''],
        files := [(''Audio/a.mp3'', [1, 2, 3]), (''Audio/b.mp3'', [4])],
        tfiles := [\<lparr>path = ''Audio/a.mp3'', name = ''a.mp3''\<rparr>,
                   \<lparr>path = ''Audio/b.mp3'', name = ''b.mp3''\<rparr>]\<rparr>)
     (''Audio/'' @ trim '' b '' @ ''.mp3'') \<and>
   notices (rename_submit \<lparr>path = ''Audio/a.mp3'', name = ''a.mp3''\<rparr> '' b ''
     (empty_world\<lparr>folders := [''Audio''],
        files := [(''Audio/a.mp3'', [1, 2, 3]), (''Audio/b.mp3'', [4])],
        tfiles := [\<lparr>path = ''Audio/a.mp3'', name = ''a.mp3''\<rparr>,
                   \<lparr>path = ''Audio/b.mp3'', name = ''b.mp3''\<rparr>]\<rparr>)) =
     [''Error: A file named '' @ [CHR 0x22] @ ''b.mp3'' @ [CHR 0x22] @ '' already exists''] \<and>
   files (rename_submit \<lparr>path = ''Audio/a.mp3'', name = ''a.mp3''\<rparr> '' b ''
     (empty_world\<lparr>folders := [''Audio''],
        files := [(''Audio/a.mp3'', [1, 2, 3]), (''Audio/b.mp3'', [4])],
        tfiles := [\<lparr>path = ''Audio/a.mp3'', name = ''a.mp3''\<rparr>,
                   \<lparr>path = ''Audio/b.mp3'', name = ''b.mp3''\<rparr>]\<rparr>)) =
     [(''Audio/a.mp3'', [1, 2, 3]), (''Audio/b.mp3'', [4])]"
  using rename_collision_reported
    [of "'' b ''" "\<lparr>path = ''Audio/a.mp3'', name = ''a.mp3''\<rparr>"
        "empty_world\<lparr>folders := [''Audio''],
           files := [(''Audio/a.mp3'', [1, 2, 3]), (''Audio/b.mp3'', [4])],
           tfiles := [\<lparr>path = ''Audio/a.mp3'', name = ''a.mp3''\<rparr>,
                      \<lparr>path = ''Audio/b.mp3'', name = ''b.mp3''\<rparr>]\<rparr>"]
  by (simp add: adapter_exists_def empty_world_def trim_def is_whitespace_def)

text \<open>
  C3 as stated fails twice. The entry \<^verbatim>\<open>Audio/a.mp3\<close> is asked to become \<^verbatim>\<open>a.mp3\<close> (the user
  enters \<^verbatim>\<open>a\<close>): the destination exists, and no notice is surfaced. The entry
  \<^verbatim>\<open>Audio/a.mp3\<close> is asked to become \<^verbatim>\<open>b.mp3\<close>, which exists: the notice is surfaced, and the
  name of the entry's object, which every later listing shows, has become \<^verbatim>\<open>b\<close>.
\<close>

theorem rename_collision_counterexample:
  "adapter_exists
     (empty_world\<lparr>folders := [''Audio''], files := [(''Audio/a.mp3'', [1, 2, 3])],
        tfiles := [\<lparr>path = ''Audio/a.mp3'', name = ''a.mp3''\<rparr>]\<rparr>)
     (''Audio/'' @ trim ''a'' @ ''.mp3'') \<and>
   notices (rename_submit \<lparr>path = ''Audio/a.mp3'', name = ''a.mp3''\<rparr> ''a''
     (empty_world\<lparr>folders := [''Audio''], files := [(''Audio/a.mp3'', [1, 2, 3])],
        tfiles := [\<lparr>path = ''Audio/a.mp3'', name = ''a.mp3''\<rparr>]\<rparr>)) = [] \<and>
   adapter_exists
     (empty_world\<lparr>folders := [''Audio''],
        files := [(''Audio/a.mp3'', [1, 2, 3]), (''Audio/b.mp3'', [4])],
        tfiles := [\<lparr>path = ''Audio/a.mp3'', name = ''a.mp3''\<rparr>,
                   \<lparr>path = ''Audio/b.mp3'', name = ''b.mp3''\<rparr>]\<rparr>)
     (''Audio/'' @ trim ''b'' @ ''.mp3'') \<and>
   getFiles (rename_submit \<lparr>path = ''Audio/a.mp3'', name = ''a.mp3''\<rparr> ''b''
     (empty_world\<lparr>folders := [''Audio''],
        files := [(''Audio/a.mp3'', [1, 2, 3]), (''Audio/b.mp3'', [4])],
        tfiles := [\<lparr>path = ''Audio/a.mp3'', name = ''a.mp3''\<rparr>,
                   \<lparr>path = ''Audio/b.mp3'', name = ''b.mp3''\<rparr>]\<rparr>)) =
     [\<lparr>path = ''Audio/a.mp3'', name = ''b''\<rparr>, \<lparr>path = ''Audio/b.mp3'', name = ''b.mp3''\<rparr>]"
  by (simp add: rename_submit_def renameBtn_onclick_def trim_def is_whitespace_def
        rename_callback_starts_def rename_callback_resumed_def adapter_exists_def
        file_name_assign_def getFiles_def Notice_def empty_world_def Let_def)

section \<open>Properties of the save routine\<close>

lemma parent_of_Audio_entry:
  "CHR ''/'' \<notin> set filename \<Longrightarrow> parent_of (''Audio/'' @ filename) = ''Audio''"
proof -
  assume a: "CHR ''/'' \<notin> set filename"
  have "dropWhile (\<lambda>c. c \<noteq> CHR ''/'') (rev filename @ ''/oiduA'') = ''/oiduA''"
    using a by (subst dropWhile_append2) auto
  then show ?thesis
    by (simp add: parent_of_def)
qed

lemma basename_Audio_entry:
  "CHR ''/'' \<notin> set filename \<Longrightarrow> basename (''Audio/'' @ filename) = filename"
proof -
  assume a: "CHR ''/'' \<notin> set filename"
  have "takeWhile (\<lambda>c. c \<noteq> CHR ''/'') (rev filename @ ''/oiduA'') = rev filename"
    using a by (subst takeWhile_append2) auto
  then show ?thesis
    by (simp add: basename_def)
qed

lemma parent_of_Audio: "parent_of ''Audio'' = []"
  by (simp add: parent_of_def)

lemma saveAudio_unfold:
  "saveAudio b filename w =
     (let w1 = (if adapter_exists w ''Audio'' then w else w\<lparr>folders := folders w @ [''Audio'']\<rparr>)
      in case createBinary (''Audio/'' @ filename) (blob_bytes b) w1 of
           Inl err \<Rightarrow> (Inl err, w1)
         | Inr w2 \<Rightarrow> (Inr (), Notice (''Saved: '' @ filename) w2))"
  by (simp add: saveAudio_def createFolder_def folder_exists_def parent_of_Audio basename_def Let_def)

lemma saveAudio_accepted:
  assumes "\<not> adapter_exists w (''Audio/'' @ filename)"
    and "CHR ''/'' \<notin> set filename" and "filename \<noteq> []"
    and "''Audio'' \<notin> set (map fst (files w))"
  shows "fst (saveAudio b filename w) = Inr ()"
proof -
  define p where "p = ''Audio/'' @ filename"
  have par: "parent_of p = ''Audio''"
    unfolding p_def using assms(2) by (rule parent_of_Audio_entry)
  have "basename p = filename"
    unfolding p_def using assms(2) by (rule basename_Audio_entry)
  then have bn: "basename p \<noteq> []"
    using assms(3) by simp
  have free: "\<not> adapter_exists w p"
    unfolding p_def using assms(1) .
  have ne: "p \<noteq> ''Audio''"
    by (simp add: p_def)
  show ?thesis
    unfolding saveAudio_unfold p_def [symmetric]
    using par bn free ne assms(4)
    by (simp add: createBinary_def adapter_exists_def folder_exists_def Let_def)
qed

lemma saveAudio_done:
  assumes "fst (saveAudio b filename w) = Inr ()"
  shows "saveAudio b filename w =
           (Inr (),
            w\<lparr>folders := (if adapter_exists w ''Audio'' then folders w else folders w @ [''Audio'']),
              files := files w @ [(''Audio/'' @ filename, blob_bytes b)],
              tfiles := tfiles w @ [new_TFile (''Audio/'' @ filename)],
              notices := notices w @ [''Saved: '' @ filename]\<rparr>)"
    and "''Audio/'' @ filename \<notin> set (map fst (files w))"
proof -
  define p where "p = ''Audio/'' @ filename"
  define w1 where "w1 = (if adapter_exists w ''Audio'' then w else w\<lparr>folders := folders w @ [''Audio'']\<rparr>)"
  have s: "saveAudio b filename w =
     (case createBinary p (blob_bytes b) w1 of
           Inl err \<Rightarrow> (Inl err, w1)
         | Inr w2 \<Rightarrow> (Inr (), Notice (''Saved: '' @ filename) w2))"
    unfolding saveAudio_unfold p_def w1_def Let_def by (rule refl)
  from assms s obtain w2 where c: "createBinary p (blob_bytes b) w1 = Inr w2"
    by (cases "createBinary p (blob_bytes b) w1") auto
  then have w2: "w2 = w1\<lparr>files := files w1 @ [(p, blob_bytes b)], tfiles := tfiles w1 @ [new_TFile p]\<rparr>"
    and free: "\<not> adapter_exists w1 p"
    by (auto simp add: createBinary_def split: if_splits)
  have f1: "files w1 = files w"
    by (simp add: w1_def)
  show "''Audio/'' @ filename \<notin> set (map fst (files w))"
    using free f1 by (simp add: adapter_exists_def p_def)
  show "saveAudio b filename w =
           (Inr (),
            w\<lparr>folders := (if adapter_exists w ''Audio'' then folders w else folders w @ [''Audio'']),
              files := files w @ [(''Audio/'' @ filename, blob_bytes b)],
              tfiles := tfiles w @ [new_TFile (''Audio/'' @ filename)],
              notices := notices w @ [''Saved: '' @ filename]\<rparr>)"
    unfolding s c by (simp add: w2 w1_def Notice_def p_def)
qed

lemma saveAudio_name_taken:
  assumes "adapter_exists w (''Audio/'' @ filename)"
  shows "fst (saveAudio b filename w) = Inl ''File already exists.''"
    and "files (snd (saveAudio b filename w)) = files w"
    and "notices (snd (saveAudio b filename w)) = notices w"
proof -
  define p where "p = ''Audio/'' @ filename"
  define w1 where "w1 = (if adapter_exists w ''Audio'' then w else w\<lparr>folders := folders w @ [''Audio'']\<rparr>)"
  have s: "saveAudio b filename w =
     (case createBinary p (blob_bytes b) w1 of
           Inl err \<Rightarrow> (Inl err, w1)
         | Inr w2 \<Rightarrow> (Inr (), Notice (''Saved: '' @ filename) w2))"
    unfolding saveAudio_unfold p_def w1_def Let_def by (rule refl)
  have "adapter_exists w1 p"
    using assms by (auto simp add: w1_def p_def adapter_exists_def)
  then have c: "createBinary p (blob_bytes b) w1 = Inl ''File already exists.''"
    by (simp add: createBinary_def)
  show "fst (saveAudio b filename w) = Inl ''File already exists.''"
    "files (snd (saveAudio b filename w)) = files w"
    "notices (snd (saveAudio b filename w)) = notices w"
    unfolding s c by (simp_all add: w1_def)
qed

lemma main_saveAudio_eq:
  "main_saveAudio now b w = saveAudio b (''Recording-'' @ digits now @ ''.mp3'') w"
  unfolding main_saveAudio_def saveAudio_def Let_def by (rule refl)

text \<open>
  C4, as the code has it. The save routine creates the folder \<^verbatim>\<open>Audio\<close> when nothing is at
  that path and asks the vault to create \<^verbatim>\<open>Audio/<filename>\<close> with the object's bytes. For
  every object and file name for which the vault accepts that (the routine completes): the
  folder is there, what is stored gains exactly that entry, the notice
  \<^verbatim>\<open>Saved: <filename>\<close> is surfaced, and exactly one entry is stored at that path, as long as
  the object. The routine of main.ts is the same with the name \<^verbatim>\<open>Recording-<now>.mp3\<close>.
\<close>

theorem saveAudio_writes_when_accepted:
  "(fst (saveAudio b filename w) = Inr () \<longrightarrow>
      (\<not> adapter_exists w ''Audio'' \<longrightarrow> ''Audio'' \<in> set (folders (snd (saveAudio b filename w)))) \<and>
      files (snd (saveAudio b filename w)) = files w @ [(''Audio/'' @ filename, blob_bytes b)] \<and>
      notices (snd (saveAudio b filename w)) = notices w @ [''Saved: '' @ filename] \<and>
      filter (\<lambda>e. fst e = ''Audio/'' @ filename) (files (snd (saveAudio b filename w))) =
        [(''Audio/'' @ filename, blob_bytes b)] \<and>
      map (\<lambda>e. length (snd e)) (filter (\<lambda>e. fst e = ''Audio/'' @ filename)
        (files (snd (saveAudio b filename w)))) = [blob_size b]) \<and>
   main_saveAudio now b w = saveAudio b (''Recording-'' @ digits now @ ''.mp3'') w"
proof (intro conjI impI)
  show "main_saveAudio now b w = saveAudio b (''Recording-'' @ digits now @ ''.mp3'') w"
    by (rule main_saveAudio_eq)
next
  assume ok: "fst (saveAudio b filename w) = Inr ()"
  note eq = saveAudio_done(1) [OF ok] and fresh = saveAudio_done(2) [OF ok]
  have none: "filter (\<lambda>e. fst e = ''Audio/'' @ filename) (files w) = []"
    using fresh by (force simp add: filter_empty_conv)
  show "files (snd (saveAudio b filename w)) = files w @ [(''Audio/'' @ filename, blob_bytes b)]"
    by (simp add: eq)
  show "notices (snd (saveAudio b filename w)) = notices w @ [''Saved: '' @ filename]"
    by (simp add: eq)
  show "filter (\<lambda>e. fst e = ''Audio/'' @ filename) (files (snd (saveAudio b filename w))) =
        [(''Audio/'' @ filename, blob_bytes b)]"
    using none by (simp add: eq)
  show "map (\<lambda>e. length (snd e)) (filter (\<lambda>e. fst e = ''Audio/'' @ filename)
        (files (snd (saveAudio b filename w)))) = [blob_size b]"
    using none by (simp add: eq blob_size_def)
  assume "\<not> adapter_exists w ''Audio''"
  then show "''Audio'' \<in> set (folders (snd (saveAudio b filename w)))"
    by (simp add: eq)
qed

theorem saveAudio_writes_when_accepted_witness:
  "fst (saveAudio \<lparr>blob_bytes = [1, 2, 3], blob_type = ''audio/mp3''\<rparr> ''Recording-0.mp3'' empty_world) = Inr () \<and>
   \<not> adapter_exists empty_world ''Audio'' \<and>
   folders (snd (saveAudio \<lparr>blob_bytes = [1, 2, 3], blob_type = ''audio/mp3''\<rparr> ''Recording-0.mp3'' empty_world)) = [''Audio''] \<and>
   files (snd (saveAudio \<lparr>blob_bytes = [1, 2, 3], blob_type = ''audio/mp3''\<rparr> ''Recording-0.mp3'' empty_world)) =
     [(''Audio/Recording-0.mp3'', [1, 2, 3])] \<and>
   notices (snd (saveAudio \<lparr>blob_bytes = [1, 2, 3], blob_type = ''audio/mp3''\<rparr> ''Recording-0.mp3'' empty_world)) =
     [''Saved: Recording-0.mp3'']"
  using saveAudio_writes_when_accepted
    [of "\<lparr>blob_bytes = [1, 2, 3], blob_type = ''audio/mp3''\<rparr>" "''Recording-0.mp3''" empty_world 0]
  by (simp add: adapter_exists_def empty_world_def saveAudio_unfold createBinary_def
        folder_exists_def parent_of_def basename_def Notice_def)

text \<open>
  C4 as stated fails for a name that is taken: the vault rejects the creation, nothing is
  written, the entry keeps its content and no notice is surfaced.
\<close>

theorem saveAudio_existing_name_counterexample:
  "saveAudio \<lparr>blob_bytes = [1, 2, 3], blob_type = ''audio/mp3''\<rparr> ''take.mp3''
     (empty_world\<lparr>folders := [''Audio''], files := [(''Audio/take.mp3'', [9])],
        tfiles := [\<lparr>path = ''Audio/take.mp3'', name = ''take.mp3''\<rparr>]\<rparr>) =
   (Inl ''File already exists.'',
    empty_world\<lparr>folders := [''Audio''], files := [(''Audio/take.mp3'', [9])],
        tfiles := [\<lparr>path = ''Audio/take.mp3'', name = ''take.mp3''\<rparr>]\<rparr>)"
  by (simp add: saveAudio_unfold createBinary_def adapter_exists_def empty_world_def)

section \<open>Properties of the plugin shell\<close>

text \<open>
  C8, as the code has it. A handler that awaits the promise of \<^verbatim>\<open>stopRecording\<close> goes on
  with the object the promise is resolved with, at once (first part) or when woken (second
  part); with no recorder that object is the empty one, for the ribbon handler and for the
  stop callback of the recording dialog (third and fourth part). The continuation tests the
  object for nothing but being there: whatever its size, stored files and notices afterwards
  are those \<^verbatim>\<open>saveAudio\<close> leaves when called with it, under the clock's name or the
  dialog's (fifth part). So for an object of size zero a file without bytes is written
  whenever the vault accepts its creation (last part).
\<close>

theorem empty_result_reaches_save:
  "(promises w ! p = Resolved b \<longrightarrow>
      await_stop k now (p, a, w) pl = resume k now (Some b) (pl\<lparr>recorder := a, env := w\<rparr>)) \<and>
   (promises (env pl) ! p = Resolved b \<longrightarrow> wake now [(p, k)] pl = resume k now (Some b) pl) \<and>
   (mediaRecorder (recorder pl) = None \<and> isRecording pl \<longrightarrow>
      plugin_step h (RibbonClick now) pl =
        resume Ribbon_stop now (Some (new_Blob [] ''''))
          (pl\<lparr>isRecording := False,
              env := (env pl)\<lparr>promises := promises (env pl) @ [Resolved (new_Blob [] '''')]\<rparr>\<rparr>)) \<and>
   (mediaRecorder (recorder pl) = None \<and> recordingModal_open pl \<and> trim v \<noteq> [] \<longrightarrow>
      plugin_step h (StopAndSave v) pl =
        resume (Modal_stop (trim v @ ''.mp3'')) 0 (Some (new_Blob [] ''''))
          (pl\<lparr>env := (env pl)\<lparr>promises := promises (env pl) @ [Resolved (new_Blob [] '''')]\<rparr>\<rparr>)) \<and>
   files (env (resume k now (Some b) pl)) =
     files (snd (saveAudio b
       (case k of Ribbon_stop \<Rightarrow> ''Recording-'' @ digits now @ ''.mp3'' | Modal_stop filename \<Rightarrow> filename)
       (env pl))) \<and>
   notices (env (resume k now (Some b) pl)) =
     notices (snd (saveAudio b
       (case k of Ribbon_stop \<Rightarrow> ''Recording-'' @ digits now @ ''.mp3'' | Modal_stop filename \<Rightarrow> filename)
       (env pl))) \<and>
   (blob_size b = 0 \<and>
    fst (saveAudio b
       (case k of Ribbon_stop \<Rightarrow> ''Recording-'' @ digits now @ ''.mp3'' | Modal_stop filename \<Rightarrow> filename)
       (env pl)) = Inr () \<longrightarrow>
      files (env (resume k now (Some b) pl)) =
        files (env pl) @
          [(''Audio/'' @
            (case k of Ribbon_stop \<Rightarrow> ''Recording-'' @ digits now @ ''.mp3'' | Modal_stop filename \<Rightarrow> filename),
            [])])"
proof -
  let ?T = "case k of Ribbon_stop \<Rightarrow> ''Recording-'' @ digits now @ ''.mp3'' | Modal_stop filename \<Rightarrow> filename"
  have immediate: "await_stop k now (p, a, w) pl = resume k now (Some b) (pl\<lparr>recorder := a, env := w\<rparr>)"
    if "promises w ! p = Resolved b"
    using that by (simp add: await_stop_def)
  have woken: "wake now [(p, k)] pl = resume k now (Some b) pl" if "promises (env pl) ! p = Resolved b"
    using that by simp
  have ribbon: "plugin_step h (RibbonClick now) pl =
        resume Ribbon_stop now (Some (new_Blob [] ''''))
          (pl\<lparr>isRecording := False,
              env := (env pl)\<lparr>promises := promises (env pl) @ [Resolved (new_Blob [] '''')]\<rparr>\<rparr>)"
    if "mediaRecorder (recorder pl) = None \<and> isRecording pl"
    using that by (simp add: stopRecording_no_recorder await_stop_def Let_def)
  have dialog: "plugin_step h (StopAndSave v) pl =
        resume (Modal_stop (trim v @ ''.mp3'')) 0 (Some (new_Blob [] ''''))
          (pl\<lparr>env := (env pl)\<lparr>promises := promises (env pl) @ [Resolved (new_Blob [] '''')]\<rparr>\<rparr>)"
    if "mediaRecorder (recorder pl) = None \<and> recordingModal_open pl \<and> trim v \<noteq> []"
    using that by (simp add: stopRecording_no_recorder await_stop_def Let_def)
  have fs: "files (env (resume k now (Some b) pl)) = files (snd (saveAudio b ?T (env pl)))"
    by (cases k; cases "saveAudio b ?T (env pl)"; cases "fst (saveAudio b ?T (env pl))")
      (simp_all add: resume_def ribbon_stopped_def modal_stopped_def playback_onOpen_def Let_def)
  have ns: "notices (env (resume k now (Some b) pl)) = notices (snd (saveAudio b ?T (env pl)))"
    by (cases k; cases "saveAudio b ?T (env pl)"; cases "fst (saveAudio b ?T (env pl))")
      (simp_all add: resume_def ribbon_stopped_def modal_stopped_def playback_onOpen_def Let_def)
  have zero: "files (env (resume k now (Some b) pl)) = files (env pl) @ [(''Audio/'' @ ?T, [])]"
    if "blob_size b = 0 \<and> fst (saveAudio b ?T (env pl)) = Inr ()"
  proof -
    from that have ok: "fst (saveAudio b ?T (env pl)) = Inr ()" and e: "blob_bytes b = []"
      by (simp_all add: blob_size_def)
    show ?thesis
      unfolding fs by (simp add: saveAudio_done(1) [OF ok] e)
  qed
  show ?thesis
    using immediate woken ribbon dialog fs ns zero by blast
qed

theorem empty_result_reaches_save_witness:
  "mediaRecorder (recorder (plugin_run \<lparr>isTypeSupported = (\<lambda>t. False), stop_inactive_throws = False\<rparr>
      [RibbonClick 1, MediaAnswer (Denied ''NotAllowedError'')] (onload empty_world))) = None \<and>
   isRecording (plugin_run \<lparr>isTypeSupported = (\<lambda>t. False), stop_inactive_throws = False\<rparr>
      [RibbonClick 1, MediaAnswer (Denied ''NotAllowedError'')] (onload empty_world)) \<and>
   recordingModal_open (plugin_run \<lparr>isTypeSupported = (\<lambda>t. False), stop_inactive_throws = False\<rparr>
      [RibbonClick 1, MediaAnswer (Denied ''NotAllowedError'')] (onload empty_world)) \<and>
   trim '' memo '' \<noteq> [] \<and>
   blob_size (new_Blob [] '''') = 0 \<and>
   fst (saveAudio (new_Blob [] '''') ''memo.mp3''
     (env (plugin_run \<lparr>isTypeSupported = (\<lambda>t. False), stop_inactive_throws = False\<rparr>
        [RibbonClick 1, MediaAnswer (Denied ''NotAllowedError'')] (onload empty_world)))) = Inr () \<and>
   files (env (plugin_step \<lparr>isTypeSupported = (\<lambda>t. False), stop_inactive_throws = False\<rparr> (RibbonClick 2)
     (plugin_run \<lparr>isTypeSupported = (\<lambda>t. False), stop_inactive_throws = False\<rparr>
        [RibbonClick 1, MediaAnswer (Denied ''NotAllowedError'')] (onload empty_world)))) =
     [(''Audio/Recording-2.mp3'', [])] \<and>
   files (env (plugin_step \<lparr>isTypeSupported = (\<lambda>t. False), stop_inactive_throws = False\<rparr> (StopAndSave '' memo '')
     (plugin_run \<lparr>isTypeSupported = (\<lambda>t. False), stop_inactive_throws = False\<rparr>
        [RibbonClick 1, MediaAnswer (Denied ''NotAllowedError'')] (onload empty_world)))) =
     [(''Audio/memo.mp3'', [])]"
  using empty_result_reaches_save
    [where pl = "plugin_run \<lparr>isTypeSupported = (\<lambda>t. False), stop_inactive_throws = False\<rparr>
        [RibbonClick 1, MediaAnswer (Denied ''NotAllowedError'')] (onload empty_world)"
       and h = "\<lparr>isTypeSupported = (\<lambda>t. False), stop_inactive_throws = False\<rparr>"
       and now = 2 and v = "'' memo ''" and b = "new_Blob [] ''''" and k = "Modal_stop ''memo.mp3''"
       and p = 0 and a = new_AudioRecorder
       and w = "empty_world\<lparr>promises := [Resolved (new_Blob [] '''')]\<rparr>"]
  by (simp add: plugin_run_def onload_def empty_world_def new_AudioRecorder_def
     startRecording_denied ribbon_started_def trim_def is_whitespace_def resume_def
     ribbon_stopped_def modal_stopped_def saveAudio_unfold createBinary_def adapter_exists_def
     folder_exists_def parent_of_def Notice_def playback_onOpen_def getFiles_def basename_def
     new_TFile_def digits.simps new_Blob_def blob_size_def Let_def)

text \<open>
  C8 as stated fails when the name is taken. The vault holds \<^verbatim>\<open>Audio/memo.mp3\<close>; the start is
  denied; the user enters \<^verbatim>\<open>memo\<close> in the recording dialog and stops. The promise of
  \<^verbatim>\<open>stopRecording\<close> is resolved with the empty object, the save routine is called with it,
  and no file without bytes is written: what is stored is as before.
\<close>

theorem empty_result_name_taken_counterexample:
  "promises (env (plugin_step \<lparr>isTypeSupported = (\<lambda>t. False), stop_inactive_throws = False\<rparr>
     (StopAndSave '' memo '')
     (plugin_run \<lparr>isTypeSupported = (\<lambda>t. False), stop_inactive_throws = False\<rparr>
        [RibbonClick 1, MediaAnswer (Denied ''NotAllowedError'')]
        (onload (empty_world\<lparr>folders := [''Audio''], files := [(''Audio/memo.mp3'', [9])],
           tfiles := [\<lparr>path = ''Audio/memo.mp3'', name = ''memo.mp3''\<rparr>]\<rparr>))))) =
     [Resolved \<lparr>blob_bytes = [], blob_type = ''''\<rparr>] \<and>
   files (env (plugin_step \<lparr>isTypeSupported = (\<lambda>t. False), stop_inactive_throws = False\<rparr>
     (StopAndSave '' memo '')
     (plugin_run \<lparr>isTypeSupported = (\<lambda>t. False), stop_inactive_throws = False\<rparr>
        [RibbonClick 1, MediaAnswer (Denied ''NotAllowedError'')]
        (onload (empty_world\<lparr>folders := [''Audio''], files := [(''Audio/memo.mp3'', [9])],
           tfiles := [\<lparr>path = ''Audio/memo.mp3'', name = ''memo.mp3''\<rparr>]\<rparr>))))) =
     [(''Audio/memo.mp3'', [9])]"
  by (simp add: plugin_run_def onload_def empty_world_def new_AudioRecorder_def
     startRecording_denied ribbon_started_def trim_def is_whitespace_def resume_def await_stop_def
     stopRecording_def resolve_def modal_stopped_def saveAudio_unfold createBinary_def
     adapter_exists_def new_Blob_def Let_def)

text \<open>
  C7 fails on the code. Two starts in a row on the wrapper leave two streams live, and the
  first of them stays live whatever the wrapper does afterwards (second part). The plugin
  reaches this: a click (the device-access request is pending), a second click (stop with no
  recorder: the empty object is saved), the grant arrives (stream 0 live, flag off), a third
  click starts again (stream 1 live). The wrapper now refers to stream 1 only, and a full
  stop afterwards ends stream 1 and leaves stream 0 live.
\<close>

theorem double_start_leaks_stream:
  "live_streams (snd (run Part_000 h [Start (Granted 1), Start (Granted 1)]
      (new_AudioRecorder, empty_world))) = [0, 1] \<and>
   0 \<in> set (live_streams (snd (run Part_000 h es
      (run Part_000 h [Start (Granted 1), Start (Granted 1)] (new_AudioRecorder, empty_world))))) \<and>
   live_streams (env (plugin_run h
      [RibbonClick 1, RibbonClick 2, MediaAnswer (Granted 1), RibbonClick 3, MediaAnswer (Granted 1)]
      (onload empty_world))) = [0, 1] \<and>
   stream (recorder (plugin_run h
      [RibbonClick 1, RibbonClick 2, MediaAnswer (Granted 1), RibbonClick 3, MediaAnswer (Granted 1)]
      (onload empty_world))) = Some 1 \<and>
   live_streams (env (plugin_run h
      [RibbonClick 1, RibbonClick 2, MediaAnswer (Granted 1), RibbonClick 3, MediaAnswer (Granted 1),
       RibbonClick 4, HostStop 1 5]
      (onload empty_world))) = [0]"
proof -
  have "unreferenced 0 [True]
          (run Part_000 h [Start (Granted 1), Start (Granted 1)] (new_AudioRecorder, empty_world))"
    using second_start_drops_first [of empty_world 1 Part_000 h 1 new_AudioRecorder]
    by (simp add: empty_world_def)
  then have "unreferenced 0 [True] (run Part_000 h es
          (run Part_000 h [Start (Granted 1), Start (Granted 1)] (new_AudioRecorder, empty_world)))"
    by (rule unreferenced_run)
  then have stays: "0 \<in> set (live_streams (snd (run Part_000 h es
          (run Part_000 h [Start (Granted 1), Start (Granted 1)] (new_AudioRecorder, empty_world)))))"
    by (rule unreferenced_live) simp
  show ?thesis
    using stays
    by (simp add: run_def plugin_run_def onload_def empty_world_def new_AudioRecorder_def await_stop_def stopRecording_def
     resolve_def new_Blob_def resume_def ribbon_stopped_def saveAudio_unfold createBinary_def adapter_exists_def
     folder_exists_def parent_of_def Notice_def playback_onOpen_def getFiles_def basename_def new_TFile_def
     startRecording_granted start_session_eq ribbon_started_def live_streams_def digits.simps Let_def
     mr_stop_def upd_recorder_def fire_stop_def onstop_def stop_tracks_def)
qed

end
